theory Spec2Isabelle
  imports Complex_Main "HOL-Library.Sublist"
begin

section \<open>Python text primitives\<close>

text \<open>
  Texts are modelled as strings over 7-bit ASCII. The classes below are what Python's
  \<^verbatim>\<open>\w\<close>, \<^verbatim>\<open>\s\<close>, \<^verbatim>\<open>\d\<close>, \<^verbatim>\<open>str.isspace\<close> and \<^verbatim>\<open>str.lower\<close> do on that range. Python
  floats are modelled as exact reals.
\<close>

definition ascii_uppercase :: string where
  "ascii_uppercase = ''ABCDEFGHIJKLMNOPQRSTUVWXYZ''"

definition ascii_lowercase :: string where
  "ascii_lowercase = ''abcdefghijklmnopqrstuvwxyz''"

definition digits :: string where
  "digits = ''0123456789''"

text \<open>\<^verbatim>\<open>string.punctuation\<close>: the 32 ASCII punctuation characters, in code order.\<close>

definition punctuation :: string where
  "punctuation = ''!'' @ [CHR 0x22] @ ''#$%&'' @ [CHR 0x27] @ ''()*+,-./:;<=>?@[''
     @ [CHR 0x5C] @ '']^_'' @ [CHR 0x60] @ ''{|}~''"

definition is_word_char :: "char \<Rightarrow> bool" where
  "is_word_char c = (c \<in> set (ascii_lowercase @ ascii_uppercase @ digits @ ''_''))"

definition is_digit :: "char \<Rightarrow> bool" where
  "is_digit c = (c \<in> set digits)"

definition is_space :: "char \<Rightarrow> bool" where
  "is_space c = (c \<in> set [CHR 0x09, CHR 0x0A, CHR 0x0B, CHR 0x0C, CHR 0x0D,
                            CHR 0x1C, CHR 0x1D, CHR 0x1E, CHR 0x1F, CHR 0x20])"

definition lower_char :: "char \<Rightarrow> char" where
  "lower_char c = (case map_of (zip ascii_uppercase ascii_lowercase) c of
                     Some d \<Rightarrow> d | None \<Rightarrow> c)"


definition lower :: "string \<Rightarrow> string" where
  "lower s = map lower_char s"


definition strip :: "string \<Rightarrow> string" where
  "strip s = rev (dropWhile is_space (rev (dropWhile is_space s)))"

definition startswith :: "string \<Rightarrow> string \<Rightarrow> bool" where
  "startswith s p = (take (length p) s = p)"

text \<open>\<^verbatim>\<open>sub in s\<close> on two strings is the substring test.\<close>

fun str_contains :: "string \<Rightarrow> string \<Rightarrow> bool" where
  "str_contains [] sub = (sub = [])"
| "str_contains (c # cs) sub = (startswith (c # cs) sub \<or> str_contains cs sub)"

definition in_punctuation :: "string \<Rightarrow> bool" where
  "in_punctuation w = str_contains punctuation w"

text \<open>\<^verbatim>\<open>s.split(sep)\<close> with a one-character separator: the pieces between separators.\<close>

fun split_on :: "char \<Rightarrow> string \<Rightarrow> string \<Rightarrow> string list" where
  "split_on sep cur [] = [cur]"
| "split_on sep cur (c # cs) =
     (if c = sep then cur # split_on sep [] cs else split_on sep (cur @ [c]) cs)"

definition flush :: "string \<Rightarrow> string list" where
  "flush cur = (if cur = [] then [] else [cur])"

text \<open>\<^verbatim>\<open>s.split()\<close>: the maximal runs of non-space characters.\<close>

fun split_ws :: "string \<Rightarrow> string \<Rightarrow> string list" where
  "split_ws cur [] = flush cur"
| "split_ws cur (c # cs) =
     (if is_space c then flush cur @ split_ws [] cs else split_ws (cur @ [c]) cs)"

text \<open>\<^verbatim>\<open>re.findall(r'\b\w+\b', s)\<close>: the maximal runs of word characters, left to right.\<close>

fun word_runs :: "string \<Rightarrow> string \<Rightarrow> string list" where
  "word_runs cur [] = flush cur"
| "word_runs cur (c # cs) =
     (if is_word_char c then word_runs (cur @ [c]) cs else flush cur @ word_runs [] cs)"

text \<open>
  \<^verbatim>\<open>re.findall(r'\b\w+\b|[^\w\s]', s)\<close>: the runs of word characters, and every other
  character that is not a space as a token of its own.
\<close>

fun token_runs :: "string \<Rightarrow> string \<Rightarrow> string list" where
  "token_runs cur [] = flush cur"
| "token_runs cur (c # cs) =
     (if is_word_char c then token_runs (cur @ [c]) cs
      else flush cur @ (if is_space c then [] else [[c]]) @ token_runs [] cs)"

text \<open>
  The comprehension
  \<^verbatim>\<open>[w for w in re.findall(r'\b\w+\b', text.lower()) if w not in string.punctuation]\<close>
  shared by \<^verbatim>\<open>predict_next\<close>, \<^verbatim>\<open>generate_sentence\<close> and \<^verbatim>\<open>_deduce_context\<close>.
\<close>

definition input_words :: "string \<Rightarrow> string list" where
  "input_words text = filter (\<lambda>w. \<not> in_punctuation w) (word_runs [] (lower text))"

definition all_tokens :: "string \<Rightarrow> string list" where
  "all_tokens text = token_runs [] (lower text)"


text \<open>Python's \<^verbatim>\<open>xs[-n:]\<close> for a positive literal \<^verbatim>\<open>n\<close>: the last \<^verbatim>\<open>n\<close> elements.\<close>

definition last_n :: "nat \<Rightarrow> 'a list \<Rightarrow> 'a list" where
  "last_n n xs = drop (length xs - n) xs"

section \<open>Dictionaries\<close>

text \<open>
  A Python dict keeps insertion order, and the code iterates over several of them, so a
  dict is an association list in insertion order. \<^verbatim>\<open>d.get(k, default)\<close> and a read of a
  \<^verbatim>\<open>defaultdict\<close> both give the default for a missing key. A read \<^verbatim>\<open>d[k]\<close> of a
  \<^verbatim>\<open>defaultdict\<close> also stores that default (0.0, or an empty dict) under the missing key,
  which \<^verbatim>\<open>d.get(k)\<close> and \<^verbatim>\<open>k in d\<close> do not. The stored key is met by every later loop
  over the dict, so the functions of the sentence analysis and of the prediction carry
  the engine through their reads.
\<close>

definition dget :: "'v \<Rightarrow> ('k \<times> 'v) list \<Rightarrow> 'k \<Rightarrow> 'v" where
  "dget d m k = (case map_of m k of None \<Rightarrow> d | Some v \<Rightarrow> v)"

text \<open>
  \<^verbatim>\<open>d[k] = f(d[k])\<close> on a \<^verbatim>\<open>defaultdict\<close> with default \<^verbatim>\<open>dflt\<close>: an existing key keeps its
  place, a new key goes to the end.
\<close>

fun dupd :: "'v \<Rightarrow> ('v \<Rightarrow> 'v) \<Rightarrow> 'k \<Rightarrow> ('k \<times> 'v) list \<Rightarrow> ('k \<times> 'v) list" where
  "dupd dflt f k [] = [(k, f dflt)]"
| "dupd dflt f k ((k', v) # m) =
     (if k = k' then (k', f v) # m else (k', v) # dupd dflt f k m)"

definition dset :: "'k \<Rightarrow> 'v \<Rightarrow> ('k \<times> 'v) list \<Rightarrow> ('k \<times> 'v) list" where
  "dset k v m = dupd v (\<lambda>_. v) k m"

definition dadd :: "'k \<Rightarrow> real \<Rightarrow> ('k \<times> real) list \<Rightarrow> ('k \<times> real) list" where
  "dadd k x m = dupd 0 (\<lambda>v. v + x) k m"

definition has_key :: "('k \<times> 'v) list \<Rightarrow> 'k \<Rightarrow> bool" where
  "has_key m k = (k \<in> set (map fst m))"

section \<open>Data model\<close>

datatype json = JNull | JBool bool | JNumber real | JString string
  | JArray "json list" | JObject "(string \<times> json) list"

text \<open>The exceptions of the modelled code, as values.\<close>

datatype error = KeyError | JSONDecodeError | TypeError | AttributeError | IndexError
  | ValueError | ZeroDivisionError

record word_entry =
  word_class :: string
  singular :: string
  plural :: string
  synonyms :: "string list"
  antonyms :: "string list"
  meaning :: string
  acronyms :: "string list"
  pattern_data :: json
  expert_field :: string

record grammar =
  common_pairs :: "(string \<times> string list) list"
  compatibility_rules :: "(string \<times> (string \<times> real) list) list"
  flow_rules :: "(string \<times> (string \<times> real) list) list"
  sentence_order :: "(string \<times> string list) list"

text \<open>
  The value of \<^verbatim>\<open>self.pattern_relationships[word]\<close>, with its keys \<^verbatim>\<open>'before'\<close>, \<^verbatim>\<open>'after'\<close>
  and \<^verbatim>\<open>'position_context'\<close>; a key not stored yet is an empty bucket.
\<close>

record pattern_entry =
  p_before :: "(string \<times> real) list"
  p_after :: "(string \<times> real) list"
  p_position_context :: "(string \<times> (string \<times> real) list) list"

record tone_data =
  tone_weight :: real
  tone_words :: "string list"

record specialist =
  vocabulary :: "string list"
  specialist_weight :: real

record user_profile =
  preferred_words :: "string list"
  learning_adaptation :: real

text \<open>
  The attributes of an \<^verbatim>\<open>ExpertFieldLLM\<close> instance. \<^verbatim>\<open>_min_words\<close> and \<^verbatim>\<open>_max_words\<close> are
  \<open>priv_min_words\<close> and \<open>priv_max_words\<close>; \<open>min_words\<close> and \<open>max_words\<close> are the instance
  attributes of those names.
\<close>

record llm =
  word_db :: "(string \<times> word_entry) list"
  word_relationships :: "(string \<times> (string \<times> real) list) list"
  pattern_relationships :: "(string \<times> pattern_entry) list"
  mode :: string
  operation_mode :: string
  grammar_rules :: grammar
  priv_min_words :: int
  priv_max_words :: int
  min_words :: int
  max_words :: int
  internet_enabled :: bool
  code_enabled :: bool
  image_enabled :: bool
  ascii_enabled :: bool
  question_words :: "string list"
  answer_words :: "string list"
  fact_words :: "string list"
  theory_words :: "string list"
  emotional_tones :: "(string \<times> tone_data) list"
  current_tone :: string
  specialists :: "(string \<times> specialist) list"
  current_domain :: string
  creativity_level :: real
  creativity_boost :: real
  user_profiles :: "(string \<times> user_profile) list"
  current_user :: string

section \<open>Word limits\<close>

text \<open>
  The two property setters are defined inside \<^verbatim>\<open>__init__\<close>, as local names of that
  function. They work on \<^verbatim>\<open>_min_words\<close> and \<^verbatim>\<open>_max_words\<close>.
\<close>

definition min_words_setter :: "int \<Rightarrow> llm \<Rightarrow> llm" where
  "min_words_setter v0 s =
     (let v = max 1 (min v0 50);
          s1 = (if v > priv_max_words s then s\<lparr>priv_max_words := v + 5\<rparr> else s)
      in s1\<lparr>priv_min_words := v\<rparr>)"

definition max_words_setter :: "int \<Rightarrow> llm \<Rightarrow> llm" where
  "max_words_setter v0 s =
     (let v = max 5 (min v0 100);
          s1 = (if v < priv_min_words s then s\<lparr>priv_min_words := max 1 (v - 5)\<rparr> else s)
      in s1\<lparr>priv_max_words := v\<rparr>)"

text \<open>
  The class itself has no \<^verbatim>\<open>min_words\<close> or \<^verbatim>\<open>max_words\<close> descriptor, so
  \<^verbatim>\<open>self.min_words = 3\<close> in \<^verbatim>\<open>__init__\<close> and \<^verbatim>\<open>llm.min_words = int(...)\<close> in \<^verbatim>\<open>main\<close> store a
  plain instance attribute.
\<close>

definition set_min_words :: "int \<Rightarrow> llm \<Rightarrow> llm" where
  "set_min_words v s = s\<lparr>min_words := v\<rparr>"

definition set_max_words :: "int \<Rightarrow> llm \<Rightarrow> llm" where
  "set_max_words v s = s\<lparr>max_words := v\<rparr>"

text \<open>The word-limit lines of \<^verbatim>\<open>__init__\<close>, in their order.\<close>

definition init_word_limits :: "llm \<Rightarrow> llm" where
  "init_word_limits s =
     set_max_words 20 (set_min_words 3 (s\<lparr>priv_min_words := 7, priv_max_words := 100\<rparr>))"

text \<open>\<^verbatim>\<open>int(digits)\<close> on a run of decimal digits.\<close>

definition digit_value :: "char \<Rightarrow> nat" where
  "digit_value c = (case map_of (zip digits [0 ..< 10]) c of Some n \<Rightarrow> n | None \<Rightarrow> 0)"

definition int_of_digits :: "string \<Rightarrow> int" where
  "int_of_digits ds = int (fold (\<lambda>c n. 10 * n + digit_value c) ds 0)"

text \<open>
  \<^verbatim>\<open>re.search(flag + r'(\d+)', s)\<close>: the digits after the leftmost occurrence of the flag
  that is followed by a digit.
\<close>

fun search_flag :: "string \<Rightarrow> string \<Rightarrow> string option" where
  "search_flag flag [] = None"
| "search_flag flag (c # cs) =
     (if startswith (c # cs) flag \<and> takeWhile is_digit (drop (length flag) (c # cs)) \<noteq> []
      then Some (takeWhile is_digit (drop (length flag) (c # cs)))
      else search_flag flag cs)"

text \<open>
  The word-count flags of the interactive loop in \<^verbatim>\<open>main\<close>: both patterns are searched
  in the input, then the minimum is assigned before the maximum.
\<close>

definition handle_word_limits :: "string \<Rightarrow> llm \<Rightarrow> llm" where
  "handle_word_limits user_input s =
     (let min_match = search_flag ''--min'' user_input;
          max_match = search_flag ''--max'' user_input;
          s1 = (case min_match of None \<Rightarrow> s | Some ds \<Rightarrow> set_min_words (int_of_digits ds) s)
      in (case max_match of None \<Rightarrow> s1 | Some ds \<Rightarrow> set_max_words (int_of_digits ds) s1))"

section \<open>Word classes and the known-word ratio\<close>

text \<open>
  \<^verbatim>\<open>_get_word_class\<close>: the exact entry, else the first prefix \<^verbatim>\<open>word[:i]\<close>,
  \<^verbatim>\<open>i = 1, ..., len(word)\<close>, that is a key of the lexicon.
\<close>

definition prefixes_of :: "string \<Rightarrow> string list" where
  "prefixes_of word = map (\<lambda>i. take i word) [1 ..< Suc (length word)]"

fun first_prefix_class :: "(string \<times> word_entry) list \<Rightarrow> string list \<Rightarrow> string" where
  "first_prefix_class db [] = ''unknown''"
| "first_prefix_class db (partial # ps) =
     (case map_of db partial of
        Some e \<Rightarrow> word_class e
      | None \<Rightarrow> first_prefix_class db ps)"

definition get_word_class :: "llm \<Rightarrow> string \<Rightarrow> string" where
  "get_word_class s word =
     (case map_of (word_db s) word of
        Some e \<Rightarrow> word_class e
      | None \<Rightarrow> first_prefix_class (word_db s) (prefixes_of word))"

text \<open>Python's \<^verbatim>\<open>a / b\<close> on numbers raises when \<open>b\<close> is zero.\<close>

definition py_div :: "real \<Rightarrow> real \<Rightarrow> error + real" where
  "py_div a b = (if b = 0 then Inl ZeroDivisionError else Inr (a / b))"

text \<open>\<^verbatim>\<open>_calculate_known_words_ratio\<close>, with its two counts named.\<close>

definition word_count :: "string list \<Rightarrow> nat" where
  "word_count ws = length (filter (\<lambda>w. \<not> in_punctuation w) ws)"

definition known_count :: "llm \<Rightarrow> string list \<Rightarrow> nat" where
  "known_count s ws =
     length (filter (\<lambda>w. \<not> in_punctuation w \<and> get_word_class s w \<noteq> ''unknown'') ws)"

definition calculate_known_words_ratio :: "llm \<Rightarrow> string list \<Rightarrow> error + real" where
  "calculate_known_words_ratio s ws =
     (if word_count ws = 0 then Inr 0
      else (case py_div (real (known_count s ws)) (real (word_count ws)) of
              Inl err \<Rightarrow> Inl err
            | Inr q \<Rightarrow> Inr (q * 100)))"

section \<open>Relationship graph\<close>

text \<open>
  \<^verbatim>\<open>self.word_relationships\<close> is a \<^verbatim>\<open>defaultdict\<close> of \<^verbatim>\<open>defaultdict(float)\<close>: a missing edge
  reads as 0.0.
\<close>

definition graph_weight :: "llm \<Rightarrow> string \<Rightarrow> string \<Rightarrow> real" where
  "graph_weight s w1 w2 = dget 0 (dget [] (word_relationships s) w1) w2"

text \<open>
  What a read leaves in the graph: \<^verbatim>\<open>self.word_relationships[a]\<close> stores an empty dict
  under a missing \<open>a\<close>, and \<^verbatim>\<open>self.word_relationships[a][b]\<close> stores 0.0 under a missing
  \<open>b\<close> as well. The value read is \<open>graph_weight\<close>.
\<close>

definition rel_touch :: "string \<Rightarrow> llm \<Rightarrow> llm" where
  "rel_touch a s = s\<lparr>word_relationships := dupd [] (\<lambda>m. m) a (word_relationships s)\<rparr>"

definition rel_read :: "string \<Rightarrow> string \<Rightarrow> llm \<Rightarrow> llm" where
  "rel_read a b s =
     s\<lparr>word_relationships := dupd [] (dupd 0 (\<lambda>v. v) b) a (word_relationships s)\<rparr>"

text \<open>\<^verbatim>\<open>self.word_relationships[a][b] += x\<close>\<close>

definition rel_add :: "string \<Rightarrow> string \<Rightarrow> real \<Rightarrow> llm \<Rightarrow> llm" where
  "rel_add a b x s = s\<lparr>word_relationships := dupd [] (dadd b x) a (word_relationships s)\<rparr>"

text \<open>One pass of a loop of \<^verbatim>\<open>_build_relationships\<close> that adds \<open>x\<close> in both directions.\<close>

definition link_both :: "string \<Rightarrow> real \<Rightarrow> string \<Rightarrow> llm \<Rightarrow> llm" where
  "link_both word x other s = rel_add other word x (rel_add word other x s)"

text \<open>The body of the class-based loop of \<^verbatim>\<open>_build_relationships\<close>.\<close>

definition class_link :: "string \<Rightarrow> string list \<Rightarrow> string \<times> word_entry \<Rightarrow> llm \<Rightarrow> llm" where
  "class_link word compatible item s =
     (if fst item \<noteq> word \<and> word_class (snd item) \<in> set compatible
      then rel_add word (fst item) 0.3 s else s)"

text \<open>
  \<^verbatim>\<open>_build_relationships\<close>. Its only caller stores the entry of \<open>word\<close> first; without
  an entry the read of \<^verbatim>\<open>data['synonyms']\<close> raises.
\<close>

definition build_relationships :: "string \<Rightarrow> llm \<Rightarrow> error + llm" where
  "build_relationships word s =
     (case map_of (word_db s) word of
        None \<Rightarrow> Inl KeyError
      | Some data \<Rightarrow>
          (let s1 = fold (link_both word 2.0) (synonyms data) s;
               s2 = fold (link_both word (- 1.5)) (antonyms data) s1;
               s3 = fold (link_both word 1.0) (acronyms data) s2
           in Inr (case map_of (common_pairs (grammar_rules s3)) (word_class data) of
                     None \<Rightarrow> s3
                   | Some compatible \<Rightarrow> fold (class_link word compatible) (word_db s3) s3)))"

text \<open>The body of the loop of \<^verbatim>\<open>_check_partial_matches\<close>, for \<^verbatim>\<open>i\<close> in \<^verbatim>\<open>range(1, len(word))\<close>.\<close>

definition partial_link :: "string \<Rightarrow> nat \<Rightarrow> llm \<Rightarrow> llm" where
  "partial_link word i s =
     (let partial = take i word in
      if has_key (word_db s) partial
      then link_both word (0.5 * (real i / real (length word))) partial s
      else s)"

definition check_partial_matches :: "string \<Rightarrow> llm \<Rightarrow> llm" where
  "check_partial_matches word s = fold (partial_link word) [1 ..< length word] s"

section \<open>Lexicon import\<close>

text \<open>\<^verbatim>\<open>[p.strip() for p in line.split(';')]\<close>\<close>

definition line_parts :: "string \<Rightarrow> string list" where
  "line_parts line = map strip (split_on CHR '';'' [] line)"

text \<open>
  \<^verbatim>\<open>[x.strip().lower() for x in parts[n].split(',')] if len(parts) > n and parts[n] else []\<close>
\<close>

definition csv_field :: "string list \<Rightarrow> nat \<Rightarrow> string list" where
  "csv_field parts n =
     (if length parts > n \<and> parts ! n \<noteq> []
      then map (\<lambda>x. lower (strip x)) (split_on CHR '','' [] (parts ! n))
      else [])"

text \<open>\<^verbatim>\<open>parts[n] if len(parts) > n else default\<close>\<close>

definition text_field :: "string list \<Rightarrow> nat \<Rightarrow> string \<Rightarrow> string" where
  "text_field parts n dflt = (if length parts > n then parts ! n else dflt)"

text \<open>
  The entry that \<^verbatim>\<open>import_dictionary\<close> builds from the fields of a line. \<open>loads\<close> stands
  for \<^verbatim>\<open>json.loads\<close>, which raises on a text that is not JSON.
\<close>

definition make_entry :: "(string \<Rightarrow> json option) \<Rightarrow> string list \<Rightarrow> string \<Rightarrow> error + word_entry" where
  "make_entry loads parts word =
     (case (if length parts > 8 \<and> parts ! 8 \<noteq> [] then loads (parts ! 8) else Some (JObject [])) of
        None \<Rightarrow> Inl JSONDecodeError
      | Some pd \<Rightarrow>
          Inr \<lparr>word_class = parts ! 0,
               singular = text_field parts 2 word,
               plural = text_field parts 3 [],
               synonyms = csv_field parts 4,
               antonyms = csv_field parts 5,
               meaning = text_field parts 6 [],
               acronyms = csv_field parts 7,
               pattern_data = pd,
               expert_field = ''general''\<rparr>)"

text \<open>
  The body of the loop over the lines of the dictionary file in \<^verbatim>\<open>import_dictionary\<close>.
  A skipped line (\<^verbatim>\<open>continue\<close>) gives the state back unchanged.
\<close>

definition import_line :: "(string \<Rightarrow> json option) \<Rightarrow> string \<Rightarrow> llm \<Rightarrow> error + llm" where
  "import_line loads line s =
     (if strip line = [] \<or> startswith line ''#'' then Inr s
      else let parts = line_parts line in
        if length parts < 2 then Inr s
        else let word = lower (parts ! 1) in
          if has_key (word_db s) word then Inr s
          else (case make_entry loads parts word of
                  Inl e \<Rightarrow> Inl e
                | Inr entry \<Rightarrow>
                    (case build_relationships word (s\<lparr>word_db := word_db s @ [(word, entry)]\<rparr>) of
                       Inl e \<Rightarrow> Inl e
                     | Inr s2 \<Rightarrow> Inr (check_partial_matches word s2))))"

text \<open>
  The loop itself. An exception leaves the loop; \<^verbatim>\<open>import_dictionary\<close> catches it and
  keeps the lexicon built so far.
\<close>

fun import_lines :: "(string \<Rightarrow> json option) \<Rightarrow> string list \<Rightarrow> llm \<Rightarrow> (error \<times> llm) + llm" where
  "import_lines loads [] s = Inr s"
| "import_lines loads (line # rest) s =
     (case import_line loads line s of
        Inl e \<Rightarrow> Inl (e, s)
      | Inr s' \<Rightarrow> import_lines loads rest s')"

section \<open>Pattern index\<close>

definition get_word_position :: "nat \<Rightarrow> nat \<Rightarrow> string" where
  "get_word_position index total_words =
     (if total_words \<le> 1 then ''single_word''
      else if index = 0 then ''beginning_sentence''
      else if index = total_words - 1 then ''end_sentence''
      else ''middle_sentence'')"

definition calculate_grammatical_compatibility :: "llm \<Rightarrow> string \<Rightarrow> string \<Rightarrow> real" where
  "calculate_grammatical_compatibility s word1 word2 =
     dget 0.1 (dget [] (compatibility_rules (grammar_rules s)) (get_word_class s word1))
              (get_word_class s word2)"

text \<open>\<^verbatim>\<open>xs.index(x)\<close> for an \<open>x\<close> that occurs in \<open>xs\<close>: the first position.\<close>

definition index_of :: "'a list \<Rightarrow> 'a \<Rightarrow> nat" where
  "index_of xs x = length (takeWhile (\<lambda>y. y \<noteq> x) xs)"

text \<open>
  \<^verbatim>\<open>_calculate_semantic_proximity\<close>, with the engine after its reads. The loop runs over
  the keys of \<^verbatim>\<open>self.word_relationships[word1]\<close>, stored zeros included, and each pass
  reads \<^verbatim>\<open>self.word_relationships[word2]\<close>.
\<close>

definition calculate_semantic_proximity ::
  "llm \<Rightarrow> string \<Rightarrow> string \<Rightarrow> string list \<Rightarrow> nat \<Rightarrow> real \<times> llm" where
  "calculate_semantic_proximity s word1 word2 all_words current_index =
     (let s1 = rel_touch word1 s;
          keys1 = map fst (dget [] (word_relationships s1) word1);
          s2 = (if keys1 = [] then s1 else rel_touch word2 s1);
          shared_connections =
            length (filter (\<lambda>word. has_key (dget [] (word_relationships s2) word2) word
                                   \<and> graph_weight s2 word2 word > 0)
                           keys1);
          proximity = real shared_connections * 0.2;
          word2_index = (if word2 \<in> set all_words then index_of all_words word2
                         else current_index);
          distance = \<bar>int current_index - int word2_index\<bar>
      in (min 1.0 (if distance > 0 then proximity + (1.0 / real_of_int distance) * 0.3
                   else proximity),
          s2))"

text \<open>
  One theme word of \<^verbatim>\<open>_calculate_contextual_relevance\<close>: the count so far and the engine.
  The second read of the \<^verbatim>\<open>and\<close> happens only when the first weight is positive.
\<close>

definition relevance_step :: "string \<Rightarrow> string \<Rightarrow> string \<Rightarrow> nat \<times> llm \<Rightarrow> nat \<times> llm" where
  "relevance_step word1 word2 theme_word acc =
     (let s1 = rel_read word1 theme_word (snd acc) in
      if graph_weight s1 word1 theme_word > 0
      then (let s2 = rel_read word2 theme_word s1 in
            (if graph_weight s2 word2 theme_word > 0 then fst acc + 1 else fst acc, s2))
      else (fst acc, s1))"

definition calculate_contextual_relevance ::
  "llm \<Rightarrow> string \<Rightarrow> string \<Rightarrow> string list \<Rightarrow> real \<times> llm" where
  "calculate_contextual_relevance s word1 word2 all_words =
     (let theme_words = filter (\<lambda>w. w \<notin> set [word1, word2] \<and> \<not> in_punctuation w) all_words;
          r = fold (relevance_step word1 word2) (take 3 theme_words) (0, s)
      in (min 0.5 (real (fst r) * 0.2), snd r))"

text \<open>\<^verbatim>\<open>_calculate_pattern_relationship\<close>: the strength, and the engine after the reads.\<close>

definition calculate_pattern_relationship ::
  "llm \<Rightarrow> string \<Rightarrow> string \<Rightarrow> string list \<Rightarrow> nat \<Rightarrow> real \<times> llm" where
  "calculate_pattern_relationship s word1 word2 all_words current_index =
     (let s1 = rel_read word1 word2 s;
          direct_rel = graph_weight s1 word1 word2;
          semantic = calculate_semantic_proximity s1 word1 word2 all_words current_index;
          grammatical_weight = calculate_grammatical_compatibility (snd semantic) word1 word2;
          contextual = calculate_contextual_relevance (snd semantic) word1 word2 all_words
      in (max 0.0 (\<bar>direct_rel\<bar> * 0.4 + fst semantic * 0.25 + grammatical_weight * 0.20
                   + fst contextual * 0.15),
          snd contextual))"

definition empty_pattern :: pattern_entry where
  "empty_pattern = \<lparr>p_before = [], p_after = [], p_position_context = []\<rparr>"

text \<open>The stored maps themselves: what the index holds for a word.\<close>

definition before_bucket :: "llm \<Rightarrow> string \<Rightarrow> (string \<times> real) list" where
  "before_bucket s word = p_before (dget empty_pattern (pattern_relationships s) word)"

definition after_bucket :: "llm \<Rightarrow> string \<Rightarrow> (string \<times> real) list" where
  "after_bucket s word = p_after (dget empty_pattern (pattern_relationships s) word)"

definition position_bucket :: "llm \<Rightarrow> string \<Rightarrow> string \<Rightarrow> (string \<times> real) list" where
  "position_bucket s word pos =
     dget [] (p_position_context (dget empty_pattern (pattern_relationships s) word)) pos"

text \<open>
  \<^verbatim>\<open>self.pattern_relationships[last_word]['after'][candidate]\<close>: a missing entry reads as
  0.0.
\<close>

definition after_strength :: "llm \<Rightarrow> string \<Rightarrow> string \<Rightarrow> real" where
  "after_strength s word other = dget 0 (after_bucket s word) other"

text \<open>The three \<^verbatim>\<open>+=\<close> of \<^verbatim>\<open>_build_relationship_patterns\<close>.\<close>

definition add_before :: "string \<Rightarrow> string \<Rightarrow> real \<Rightarrow> llm \<Rightarrow> llm" where
  "add_before word other x s =
     s\<lparr>pattern_relationships :=
         dupd empty_pattern (\<lambda>e. e\<lparr>p_before := dadd other x (p_before e)\<rparr>) word
              (pattern_relationships s)\<rparr>"

definition add_after :: "string \<Rightarrow> string \<Rightarrow> real \<Rightarrow> llm \<Rightarrow> llm" where
  "add_after word other x s =
     s\<lparr>pattern_relationships :=
         dupd empty_pattern (\<lambda>e. e\<lparr>p_after := dadd other x (p_after e)\<rparr>) word
              (pattern_relationships s)\<rparr>"

definition add_position :: "string \<Rightarrow> string \<Rightarrow> string \<Rightarrow> real \<Rightarrow> llm \<Rightarrow> llm" where
  "add_position word pos other x s =
     s\<lparr>pattern_relationships :=
         dupd empty_pattern
              (\<lambda>e. e\<lparr>p_position_context := dupd [] (dadd other x) pos (p_position_context e)\<rparr>)
              word (pattern_relationships s)\<rparr>"

text \<open>
  The body of the loop of \<^verbatim>\<open>_build_relationship_patterns\<close> at position \<open>i\<close> of the
  sentence.
\<close>

definition pattern_step :: "string \<Rightarrow> string list \<Rightarrow> nat \<Rightarrow> nat \<times> string \<Rightarrow> llm \<Rightarrow> llm" where
  "pattern_step current_word all_words current_index item s =
     (let i = fst item; other_word = snd item in
      if i = current_index \<or> in_punctuation other_word then s
      else
        let r = calculate_pattern_relationship s current_word other_word all_words current_index;
            relationship_strength = fst r;
            s1 = (if i < current_index
                  then add_before current_word other_word relationship_strength (snd r)
                  else add_after current_word other_word relationship_strength (snd r));
            sentence_position = get_word_position i (length all_words)
        in add_position current_word sentence_position other_word relationship_strength s1)"

definition build_relationship_patterns :: "string \<Rightarrow> string list \<Rightarrow> nat \<Rightarrow> llm \<Rightarrow> llm" where
  "build_relationship_patterns current_word all_words current_index s =
     fold (pattern_step current_word all_words current_index) (enumerate 0 all_words) s"

text \<open>
  \<^verbatim>\<open>_update_word_position_data\<close>: the position counter kept in the \<^verbatim>\<open>pattern_data\<close> of a
  lexicon word. The statements raise unless \<^verbatim>\<open>pattern_data\<close> is an object whose
  \<^verbatim>\<open>position_patterns\<close>, when present, is an object (else \<^verbatim>\<open>.get\<close> is missing) with a
  number where the count goes.
\<close>

definition count_position :: "string \<Rightarrow> json \<Rightarrow> error + json" where
  "count_position position_type pd =
     (case pd of
        JObject members \<Rightarrow>
          (case dget (JObject []) members ''position_patterns'' of
             JObject counts \<Rightarrow>
               (case dget (JNumber 0) counts position_type of
                  JNumber n \<Rightarrow>
                    Inr (JObject (dset ''position_patterns''
                                       (JObject (dset position_type (JNumber (n + 1)) counts))
                                       members))
                | JBool b \<Rightarrow>
                    Inr (JObject (dset ''position_patterns''
                                       (JObject (dset position_type
                                                      (JNumber ((if b then 1 else 0) + 1)) counts))
                                       members))
                | _ \<Rightarrow> Inl TypeError)
           | _ \<Rightarrow> Inl AttributeError)
      | _ \<Rightarrow> Inl TypeError)"

definition update_word_position_data :: "string \<Rightarrow> string \<Rightarrow> llm \<Rightarrow> error + llm" where
  "update_word_position_data word position_type s =
     (case map_of (word_db s) word of
        None \<Rightarrow> Inr s
      | Some e \<Rightarrow>
          (case count_position position_type (pattern_data e) of
             Inl err \<Rightarrow> Inl err
           | Inr pd \<Rightarrow> Inr (s\<lparr>word_db := dset word (e\<lparr>pattern_data := pd\<rparr>) (word_db s)\<rparr>)))"

text \<open>
  The last statement of the loop of \<^verbatim>\<open>analyze_patterns\<close>: the strength between the
  previous word and this one is computed for the report, and its reads stay in the graph.
\<close>

definition report_previous :: "string list \<Rightarrow> nat \<Rightarrow> string \<Rightarrow> llm \<Rightarrow> llm" where
  "report_previous ws i word s =
     (if i > 0 \<and> \<not> in_punctuation (ws ! (i - 1))
      then snd (calculate_pattern_relationship s (ws ! (i - 1)) word ws i)
      else s)"

text \<open>
  The state changes of one pass of the loop of \<^verbatim>\<open>analyze_patterns\<close>, for position \<open>i\<close> of
  the token list \<open>ws\<close>. An error carries the state at the moment of the exception.
\<close>

definition analyze_word :: "string list \<Rightarrow> nat \<times> string \<Rightarrow> llm \<Rightarrow> (error \<times> llm) + llm" where
  "analyze_word ws item s =
     (let i = fst item; word = snd item in
      if in_punctuation word then Inr s
      else
        let s1 = build_relationship_patterns word ws i s;
            position_type = get_word_position i (length ws)
        in if operation_mode s1 = ''training''
           then (case update_word_position_data word position_type s1 of
                   Inl err \<Rightarrow> Inl (err, s1)
                 | Inr s2 \<Rightarrow> Inr (report_previous ws i word s2))
           else Inr (report_previous ws i word s1))"

fun analyze_loop :: "string list \<Rightarrow> (nat \<times> string) list \<Rightarrow> llm \<Rightarrow> (error \<times> llm) + llm" where
  "analyze_loop ws [] s = Inr s"
| "analyze_loop ws (item # rest) s =
     (case analyze_word ws item s of
        Inl err \<Rightarrow> Inl err
      | Inr s' \<Rightarrow> analyze_loop ws rest s')"

text \<open>
  The effect of \<^verbatim>\<open>analyze_patterns\<close> on the engine. (What it computes before the loop,
  the sentence type, tense, known-word ratio and context, stores nothing.)
\<close>

definition analyze_patterns :: "string \<Rightarrow> llm \<Rightarrow> (error \<times> llm) + llm" where
  "analyze_patterns sentence s =
     (let ws = all_tokens sentence in analyze_loop ws (enumerate 0 ws) s)"

definition state_after :: "(error \<times> llm) + llm \<Rightarrow> llm" where
  "state_after r = (case r of Inl (err, s) \<Rightarrow> s | Inr s \<Rightarrow> s)"

section \<open>Prediction\<close>

definition calculate_grammatical_flow :: "llm \<Rightarrow> string \<Rightarrow> string \<Rightarrow> real" where
  "calculate_grammatical_flow s last_word candidate_word =
     dget 0.1 (dget [] (flow_rules (grammar_rules s)) (get_word_class s last_word))
              (get_word_class s candidate_word)"

text \<open>
  One pass of the loop of \<^verbatim>\<open>_calculate_contextual_coherence\<close>: the sum so far and the
  engine. The membership test reads \<^verbatim>\<open>self.word_relationships[candidate_word]\<close>.
\<close>

definition coherence_step :: "string \<Rightarrow> string \<Rightarrow> real \<times> llm \<Rightarrow> real \<times> llm" where
  "coherence_step candidate_word prev_word acc =
     (let s1 = rel_touch candidate_word (snd acc) in
      if has_key (dget [] (word_relationships s1) candidate_word) prev_word
         \<and> graph_weight s1 candidate_word prev_word > 0
      then (fst acc + graph_weight s1 candidate_word prev_word * 0.2, s1)
      else (fst acc, s1))"

definition calculate_contextual_coherence :: "llm \<Rightarrow> string \<Rightarrow> string list \<Rightarrow> real \<times> llm" where
  "calculate_contextual_coherence s candidate_word previous_words =
     (let r = fold (coherence_step candidate_word) (last_n 3 previous_words) (0.0, s)
      in (min 1.0 (fst r), snd r))"

definition get_semantic_field :: "llm \<Rightarrow> string \<Rightarrow> string" where
  "get_semantic_field s word =
     (case map_of (word_db s) word of
        None \<Rightarrow> ''general''
      | Some e \<Rightarrow>
          (let m = lower (meaning e) in
           if list_ex (str_contains m) [''computer'', ''digital'', ''electronic''] then ''technology''
           else if list_ex (str_contains m) [''science'', ''research'', ''study''] then ''science''
           else if list_ex (str_contains m) [''math'', ''calculate'', ''number''] then ''mathematics''
           else ''general''))"

definition calculate_field_consistency :: "llm \<Rightarrow> string \<Rightarrow> string list \<Rightarrow> real" where
  "calculate_field_consistency s candidate_word previous_words =
     (let candidate_field = get_semantic_field s candidate_word in
      if candidate_field = ''general'' then 0.3
      else real (length (filter (\<lambda>prev_word. get_semantic_field s prev_word = candidate_field)
                                (last_n 2 previous_words))) * 0.2)"

definition get_expected_classes :: "llm \<Rightarrow> string \<Rightarrow> string list" where
  "get_expected_classes s current_class =
     (let expected = map fst (dget [] (flow_rules (grammar_rules s)) current_class) in
      if expected \<noteq> [] then expected else [''noun'', ''verb''])"

text \<open>
  \<^verbatim>\<open>sorted(..., key=lambda x: x[1], reverse=True)\<close>: Python's sort is stable, also with
  \<^verbatim>\<open>reverse=True\<close>; so is the insertion sort \<open>sort_key\<close> on the negated score.
\<close>

definition sort_by_score_desc :: "('a \<times> real) list \<Rightarrow> ('a \<times> real) list" where
  "sort_by_score_desc xs = sort_key (\<lambda>p. - snd p) xs"

definition get_top_predictions :: "(string \<times> real) list \<Rightarrow> (string \<times> real) list" where
  "get_top_predictions scores = take 10 (sort_by_score_desc (filter (\<lambda>p. snd p > 0) scores))"

text \<open>The bodies of the three loops of \<^verbatim>\<open>_simple_relationship_prediction\<close>.\<close>

definition simple_rel_step :: "string \<times> real \<Rightarrow> (string \<times> real) list \<Rightarrow> (string \<times> real) list" where
  "simple_rel_step item scores =
     (if snd item > 0 then dadd (fst item) (snd item * 0.5) scores else scores)"

definition simple_pattern_step :: "string \<times> real \<Rightarrow> (string \<times> real) list \<Rightarrow> (string \<times> real) list" where
  "simple_pattern_step item scores = dadd (fst item) (snd item * 0.3) scores"

definition simple_class_step ::
  "string list \<Rightarrow> string \<times> word_entry \<Rightarrow> (string \<times> real) list \<Rightarrow> (string \<times> real) list" where
  "simple_class_step expected_classes item scores =
     (if word_class (snd item) \<in> set expected_classes then dadd (fst item) 0.2 scores else scores)"

text \<open>
  What a read of the pattern index leaves there:
  \<^verbatim>\<open>self.pattern_relationships[word]['after']\<close> stores an empty map for a word without
  one, and \<^verbatim>\<open>self.pattern_relationships[word]['after'][other]\<close> stores 0.0 under a missing
  \<open>other\<close> as well.
\<close>

definition pattern_touch_after :: "string \<Rightarrow> llm \<Rightarrow> llm" where
  "pattern_touch_after word s =
     s\<lparr>pattern_relationships := dupd empty_pattern (\<lambda>e. e) word (pattern_relationships s)\<rparr>"

definition pattern_read_after :: "string \<Rightarrow> string \<Rightarrow> llm \<Rightarrow> llm" where
  "pattern_read_after word other s =
     s\<lparr>pattern_relationships :=
         dupd empty_pattern (\<lambda>e. e\<lparr>p_after := dupd 0 (\<lambda>v. v) other (p_after e)\<rparr>) word
              (pattern_relationships s)\<rparr>"

text \<open>
  The score table of \<^verbatim>\<open>_simple_relationship_prediction\<close> for a last word, and the engine
  after its reads.
\<close>

definition simple_scan :: "llm \<Rightarrow> string \<Rightarrow> (string \<times> real) list \<times> llm" where
  "simple_scan s last_word =
     (let s1 = rel_touch last_word s;
          scores1 = fold simple_rel_step (dget [] (word_relationships s1) last_word) [];
          s2 = pattern_touch_after last_word s1;
          scores2 = fold simple_pattern_step (after_bucket s2 last_word) scores1;
          expected_classes = get_expected_classes s2 (get_word_class s2 last_word)
      in (fold (simple_class_step expected_classes) (word_db s2) scores2, s2))"

definition simple_scores :: "llm \<Rightarrow> string \<Rightarrow> (string \<times> real) list" where
  "simple_scores s last_word = fst (simple_scan s last_word)"

text \<open>\<^verbatim>\<open>words[-1]\<close> raises on an empty list.\<close>

definition simple_relationship_prediction :: "llm \<Rightarrow> string list \<Rightarrow> error + (string \<times> real) list" where
  "simple_relationship_prediction s ws =
     (if ws = [] then Inl IndexError
      else Inr (get_top_predictions (simple_scores s (last ws))))"

text \<open>
  The total score of one candidate of \<^verbatim>\<open>_complex_relationship_prediction\<close>, and the
  engine after the reads made for it.
\<close>

definition complex_candidate :: "string list \<Rightarrow> string \<Rightarrow> string \<Rightarrow> llm \<Rightarrow> real \<times> llm" where
  "complex_candidate ws last_word candidate_word s =
     (let s1 = rel_read last_word candidate_word s;
          direct_rel = graph_weight s1 last_word candidate_word;
          s2 = pattern_read_after last_word candidate_word s1;
          pattern_rel = after_strength s2 last_word candidate_word;
          grammatical_score = calculate_grammatical_flow s2 last_word candidate_word;
          contextual = calculate_contextual_coherence s2 candidate_word ws;
          field_score = calculate_field_consistency (snd contextual) candidate_word ws
      in (max 0 direct_rel * 0.3 + pattern_rel * 0.25 + grammatical_score * 0.20
          + fst contextual * 0.15 + field_score * 0.10,
          snd contextual))"

text \<open>One pass of its loop over the lexicon: the scores so far and the engine.\<close>

definition complex_step ::
  "string list \<Rightarrow> string \<Rightarrow> string \<Rightarrow> (string \<times> real) list \<times> llm \<Rightarrow> (string \<times> real) list \<times> llm" where
  "complex_step ws last_word candidate_word acc =
     (if candidate_word = last_word then acc
      else let r = complex_candidate ws last_word candidate_word (snd acc) in
           (if fst r > 0 then dset candidate_word (fst r) (fst acc) else fst acc, snd r))"

definition complex_scan :: "llm \<Rightarrow> string list \<Rightarrow> string \<Rightarrow> (string \<times> real) list \<times> llm" where
  "complex_scan s ws last_word = fold (complex_step ws last_word) (map fst (word_db s)) ([], s)"

definition complex_scores :: "llm \<Rightarrow> string list \<Rightarrow> string \<Rightarrow> (string \<times> real) list" where
  "complex_scores s ws last_word = fst (complex_scan s ws last_word)"

definition complex_relationship_prediction :: "llm \<Rightarrow> string list \<Rightarrow> error + (string \<times> real) list" where
  "complex_relationship_prediction s ws =
     (if ws = [] then Inl IndexError
      else Inr (get_top_predictions (complex_scores s ws (last ws))))"

text \<open>
  What \<^verbatim>\<open>predict_next\<close> returns: the bare list \<^verbatim>\<open>[]\<close> of its first \<^verbatim>\<open>return\<close>, or the
  pair \<^verbatim>\<open>(predictions, known_ratio)\<close> of its last one.
\<close>

datatype predict_result =
    EmptyList
  | RankedPair "(string \<times> real) list" real

definition predict_next :: "llm \<Rightarrow> string \<Rightarrow> string \<Rightarrow> error + predict_result" where
  "predict_next s text pmode =
     (let ws = input_words text in
      if ws = [] then Inr EmptyList
      else
        (case calculate_known_words_ratio s (all_tokens text) of
           Inl err \<Rightarrow> Inl err
         | Inr known_ratio \<Rightarrow>
             (case (if pmode = ''simple'' then simple_relationship_prediction s ws
                    else complex_relationship_prediction s ws) of
                Inl err \<Rightarrow> Inl err
              | Inr predictions \<Rightarrow> Inr (RankedPair predictions known_ratio))))"

definition ranked_list :: "predict_result \<Rightarrow> (string \<times> real) list" where
  "ranked_list r = (case r of EmptyList \<Rightarrow> [] | RankedPair xs ratio \<Rightarrow> xs)"

text \<open>
  The score table that \<^verbatim>\<open>predict_next\<close> ranks for a text with word tokens: the
  candidates in the order the prediction first met them.
\<close>

definition score_table :: "llm \<Rightarrow> string \<Rightarrow> string \<Rightarrow> (string \<times> real) list" where
  "score_table s text pmode =
     (let ws = input_words text in
      if pmode = ''simple'' then simple_scores s (last ws) else complex_scores s ws (last ws))"

text \<open>The engine after \<^verbatim>\<open>predict_next\<close>: what the reads of the prediction have stored.\<close>

definition predict_next_engine :: "llm \<Rightarrow> string \<Rightarrow> string \<Rightarrow> llm" where
  "predict_next_engine s text pmode =
     (let ws = input_words text in
      if ws = [] then s
      else if pmode = ''simple'' then snd (simple_scan s (last ws))
      else snd (complex_scan s ws (last ws)))"

section \<open>Sentence assembly\<close>





text \<open>\<^verbatim>\<open>max(candidates, key=lambda x: x[1])\<close>: the first item of the greatest score.\<close>

definition max_by_score :: "('a \<times> real) list \<Rightarrow> ('a \<times> real) option" where
  "max_by_score xs =
     (case xs of
        [] \<Rightarrow> None
      | x # rest \<Rightarrow> Some (fold (\<lambda>y best. if snd y > snd best then y else best) rest x))"









section \<open>Context deduction and the enhancement layers\<close>

record deduced_context =
  main_topic :: string
  main_expert :: string
  topic_confidence :: real
  expert_confidence :: real

text \<open>\<^verbatim>\<open>Counter(xs)\<close>: the counts, keyed in the order of first occurrence.\<close>

definition counter :: "string list \<Rightarrow> (string \<times> nat) list" where
  "counter xs = fold (\<lambda>x c. dupd 0 (\<lambda>n. n + 1) x c) xs []"

text \<open>\<^verbatim>\<open>max(d.values())\<close> on a dict that is not empty.\<close>

definition max_value :: "('a \<times> real) list \<Rightarrow> real" where
  "max_value xs = (case max_by_score xs of None \<Rightarrow> 0.0 | Some p \<Rightarrow> snd p)"

definition noun_weights_of :: "llm \<Rightarrow> string list \<Rightarrow> (string \<times> real) list" where
  "noun_weights_of s nouns =
     (if nouns = [] then []
      else
        let w1 = dset (hd nouns) 2.0 [];
            w2 = fold (\<lambda>item w. dadd (fst item) (real (snd item) * 0.5) w) (counter nouns) w1
        in fold (\<lambda>noun w.
                   fold (\<lambda>synonym w'. dadd synonym 0.3 w')
                        (case map_of (word_db s) noun of None \<Rightarrow> [] | Some e \<Rightarrow> synonyms e) w)
                nouns w2)"

definition expert_scores_of :: "llm \<Rightarrow> string list \<Rightarrow> (string \<times> real) list" where
  "expert_scores_of s ws =
     fold (\<lambda>word sc.
             (case map_of (word_db s) word of
                None \<Rightarrow> sc
              | Some e \<Rightarrow> if expert_field e \<noteq> ''general'' then dadd (expert_field e) 1.0 sc else sc))
          ws []"

definition deduce_context :: "llm \<Rightarrow> string \<Rightarrow> deduced_context" where
  "deduce_context s text =
     (let ws = input_words text;
          nouns = filter (\<lambda>word. get_word_class s word = ''noun'') ws;
          noun_weights = noun_weights_of s nouns;
          expert_scores = expert_scores_of s ws
      in \<lparr>main_topic = (case max_by_score noun_weights of
                          Some p \<Rightarrow> fst p
                        | None \<Rightarrow> (case ws of [] \<Rightarrow> ''general'' | w # rest \<Rightarrow> w)),
          main_expert = (case max_by_score expert_scores of Some p \<Rightarrow> fst p | None \<Rightarrow> ''general''),
          topic_confidence = max_value noun_weights,
          expert_confidence = max_value expert_scores\<rparr>)"

definition get_contextual_predictions ::
  "llm \<Rightarrow> string \<Rightarrow> (string \<times> real) list \<Rightarrow> (string \<times> real) list" where
  "get_contextual_predictions s text base_predictions =
     (let topic = main_topic (deduce_context s text) in
      if topic = [] then base_predictions
      else sort_by_score_desc
             (map (\<lambda>item.
                     let context_boost =
                           (if has_key (word_relationships s) topic
                               \<and> has_key (dget [] (word_relationships s) topic) (fst item)
                            then graph_weight s topic (fst item) * 0.1 else 0.0)
                     in (fst item, snd item * (1 + context_boost)))
                  base_predictions))"

definition tone_scores_of :: "llm \<Rightarrow> string list \<Rightarrow> (string \<times> real) list" where
  "tone_scores_of s ws =
     fold (\<lambda>item sc.
             fold (\<lambda>tone_word sc'.
                     if tone_word \<in> set ws then dadd (fst item) (tone_weight (snd item)) sc'
                     else sc')
                  (tone_words (snd item)) sc)
          (emotional_tones s) []"

definition detect_emotional_tone :: "string \<Rightarrow> llm \<Rightarrow> llm" where
  "detect_emotional_tone text s =
     s\<lparr>current_tone := (case max_by_score (tone_scores_of s (split_ws [] (lower text))) of
                          Some p \<Rightarrow> fst p | None \<Rightarrow> ''neutral'')\<rparr>"

definition adapt_to_tone :: "llm \<Rightarrow> (string \<times> real) list \<Rightarrow> (string \<times> real) list" where
  "adapt_to_tone s predictions =
     (if current_tone s = ''neutral'' then predictions
      else
        let td = dget \<lparr>tone_weight = 1.0, tone_words = []\<rparr> (emotional_tones s) (current_tone s)
        in sort_by_score_desc
             (map (\<lambda>item. if fst item \<in> set (tone_words td)
                           then (fst item, snd item * tone_weight td) else item)
                  predictions))"

definition domain_scores_of :: "llm \<Rightarrow> string list \<Rightarrow> (string \<times> real) list" where
  "domain_scores_of s ws =
     fold (\<lambda>item sc.
             dset (fst item)
                  (real (length (remdups (filter (\<lambda>w. w \<in> set (vocabulary (snd item))) ws)))
                   * specialist_weight (snd item)) sc)
          (specialists s) []"

definition detect_domain :: "string \<Rightarrow> llm \<Rightarrow> llm" where
  "detect_domain text s =
     s\<lparr>current_domain := (case max_by_score (domain_scores_of s (split_ws [] (lower text))) of
                            Some p \<Rightarrow> fst p | None \<Rightarrow> ''general'')\<rparr>"

definition get_domain_enhanced_predictions ::
  "llm \<Rightarrow> (string \<times> real) list \<Rightarrow> error + (string \<times> real) list" where
  "get_domain_enhanced_predictions s base_predictions =
     (if current_domain s = ''general'' then Inr base_predictions
      else (case map_of (specialists s) (current_domain s) of
              None \<Rightarrow> Inl KeyError
            | Some domain_data \<Rightarrow>
                Inr (sort_by_score_desc
                       (map (\<lambda>item. if fst item \<in> set (vocabulary domain_data)
                                     then (fst item, snd item * specialist_weight domain_data)
                                     else item)
                            base_predictions))))"

definition get_creative_predictions :: "llm \<Rightarrow> (string \<times> real) list \<Rightarrow> (string \<times> real) list" where
  "get_creative_predictions s base_predictions =
     (if creativity_level s < 0.1 then base_predictions
      else sort_by_score_desc
             (map (\<lambda>item. if snd item < 0.7
                           then (fst item, snd item * (1 + creativity_boost s)) else item)
                  base_predictions))"

text \<open>
  \<^verbatim>\<open>self.user_profiles\<close> is a \<^verbatim>\<open>defaultdict\<close>, and the default argument of its \<^verbatim>\<open>get\<close> reads
  \<^verbatim>\<open>self.user_profiles['default']\<close>, which stores a fresh profile when there is none.
\<close>

definition default_profile :: user_profile where
  "default_profile = \<lparr>preferred_words = [], learning_adaptation = 1.0\<rparr>"

definition touch_default_profile :: "llm \<Rightarrow> llm" where
  "touch_default_profile s =
     s\<lparr>user_profiles := dupd default_profile (\<lambda>p. p) ''default'' (user_profiles s)\<rparr>"

definition get_personalized_predictions :: "llm \<Rightarrow> (string \<times> real) list \<Rightarrow> (string \<times> real) list" where
  "get_personalized_predictions s base_predictions =
     (let profile = dget (dget default_profile (user_profiles s) ''default'')
                         (user_profiles s) (current_user s) in
      if preferred_words profile = [] then base_predictions
      else sort_by_score_desc
             (map (\<lambda>item. if fst item \<in> set (preferred_words profile)
                           then (fst item, snd item * (1 + learning_adaptation profile * 0.2))
                           else item)
                  base_predictions))"

definition reset_flags :: "llm \<Rightarrow> llm" where
  "reset_flags s =
     s\<lparr>internet_enabled := False, code_enabled := False,
       image_enabled := False, ascii_enabled := False\<rparr>"

text \<open>
  \<^verbatim>\<open>enhanced_predict_next\<close>: the value returned (or the exception raised) and the engine
  afterwards. \<^verbatim>\<open>base_predictions, known_ratio = self.predict_next(text, mode)\<close> unpacks a
  pair, which raises on the empty list.
\<close>

definition enhanced_predict_next ::
  "string \<Rightarrow> string \<Rightarrow> llm \<Rightarrow> (error + (string \<times> real) list \<times> real) \<times> llm" where
  "enhanced_predict_next text pmode s =
     (let s1 = reset_flags s in
      if strip text = [] then (Inr ([], 100), s1)
      else (case predict_next s1 text pmode of
              Inl err \<Rightarrow> (Inl err, s1)
            | Inr EmptyList \<Rightarrow> (Inl ValueError, s1)
            | Inr (RankedPair base_predictions known_ratio) \<Rightarrow>
                let s1p = predict_next_engine s1 text pmode in
                if base_predictions = [] then (Inr (base_predictions, known_ratio), s1p)
                else
                  let p1 = get_contextual_predictions s1p text base_predictions;
                      s2 = detect_emotional_tone text s1p;
                      p2 = adapt_to_tone s2 p1;
                      s3 = detect_domain text s2
                  in (case get_domain_enhanced_predictions s3 p2 of
                        Inl err \<Rightarrow> (Inl err, s3)
                      | Inr p3 \<Rightarrow>
                          let p4 = get_creative_predictions s3 p3;
                              s4 = touch_default_profile s3
                          in (Inr (get_personalized_predictions s4 p4, known_ratio), s4))))"

section \<open>The engine as \<^verbatim>\<open>_ensure_files_exist\<close> and \<^verbatim>\<open>__init__\<close> set it up\<close>

text \<open>The default grammar file and word lists that \<^verbatim>\<open>_ensure_files_exist\<close> writes.\<close>

definition default_grammar :: grammar where
  "default_grammar =
     \<lparr>common_pairs = [(''noun'', [''verb'', ''adjective'']), (''verb'', [''noun'', ''adverb'']),
                       (''adjective'', [''noun'']), (''adverb'', [''verb'', ''adjective''])],
      compatibility_rules = [(''noun'', [(''verb'', 0.8), (''adjective'', 0.6)]),
                              (''verb'', [(''noun'', 0.8), (''adverb'', 0.7)]),
                              (''adjective'', [(''noun'', 0.9)]), (''adverb'', [(''verb'', 0.8)])],
      flow_rules = [(''noun'', [(''verb'', 0.9)]), (''verb'', [(''noun'', 0.8)]),
                     (''adjective'', [(''noun'', 0.9)]), (''adverb'', [(''verb'', 0.8)])],
      sentence_order = [(''statement'', [''noun'', ''verb'', ''noun'']),
                         (''question'', [''question_word'', ''verb'', ''noun'']),
                         (''command'', [''verb'', ''noun''])]\<rparr>"

text \<open>
  The attributes after \<^verbatim>\<open>__init__\<close> with the default files, before any dictionary line is
  imported.
\<close>

definition new_llm :: llm where
  "new_llm = init_word_limits
     \<lparr>word_db = [], word_relationships = [], pattern_relationships = [],
      mode = ''formal'', operation_mode = ''speech'', grammar_rules = default_grammar,
      priv_min_words = 7, priv_max_words = 100, min_words = 3, max_words = 20,
      internet_enabled = False, code_enabled = False, image_enabled = False, ascii_enabled = False,
      question_words = [''?'', ''what'', ''when'', ''where'', ''why'', ''how'', ''which'', ''who''],
      answer_words = [''because'', ''therefore'', ''thus'', ''so'', ''hence''],
      fact_words = [''fact'', ''actually'', ''proven'', ''evidence'', ''study'', ''research''],
      theory_words = [''theory'', ''hypothesis'', ''maybe'', ''perhaps'', ''possibly'', ''could''],
      emotional_tones = [(''formal'', \<lparr>tone_weight = 1.0, tone_words = [''therefore'', ''however'', ''thus'']\<rparr>),
                         (''casual'', \<lparr>tone_weight = 0.8, tone_words = [''hey'', ''cool'', ''awesome'']\<rparr>),
                         (''technical'', \<lparr>tone_weight = 1.2, tone_words = [''algorithm'', ''parameter'', ''execute'']\<rparr>),
                         (''empathetic'', \<lparr>tone_weight = 1.1, tone_words = [''understand'', ''feel'', ''support'']\<rparr>)],
      current_tone = ''neutral'',
      specialists = [(''general'', \<lparr>vocabulary = [], specialist_weight = 1.0\<rparr>)],
      current_domain = ''general'',
      creativity_level = 0.5, creativity_boost = 0.3,
      user_profiles = [], current_user = ''default''\<rparr>"

text \<open>A stand-in for \<^verbatim>\<open>json.loads\<close> that reads the empty object only.\<close>

definition loads_empty_object :: "string \<Rightarrow> json option" where
  "loads_empty_object t = (if strip t = ''{}'' then Some (JObject []) else None)"

text \<open>The first line of the sample dictionary that \<^verbatim>\<open>_ensure_files_exist\<close> writes.\<close>

definition computer_line :: string where
  "computer_line =
     ''noun; computer; computer; computers; machine,device,pc; ; electronic device; PC,CPU; {}''"

section \<open>Specification predicates\<close>

text \<open>A ranked list whose scores fall strictly from each entry to the next.\<close>

fun strictly_descending :: "('a \<times> real) list \<Rightarrow> bool" where
  "strictly_descending [] = True"
| "strictly_descending [x] = True"
| "strictly_descending (x # y # rest) = (snd y < snd x \<and> strictly_descending (y # rest))"

text \<open>
  A stored map grows: every key it had is still stored, with a value that is not
  smaller. The pattern index grows when each of its maps does.
\<close>

definition bucket_grows :: "(string \<times> real) list \<Rightarrow> (string \<times> real) list \<Rightarrow> bool" where
  "bucket_grows m m' =
     (\<forall>k v. map_of m k = Some v \<longrightarrow> (\<exists>v'. map_of m' k = Some v' \<and> v \<le> v'))"

definition index_grows :: "llm \<Rightarrow> llm \<Rightarrow> bool" where
  "index_grows s s' =
     (\<forall>word. bucket_grows (before_bucket s word) (before_bucket s' word)
           \<and> bucket_grows (after_bucket s word) (after_bucket s' word)
           \<and> (\<forall>pos. bucket_grows (position_bucket s word pos) (position_bucket s' word pos)))"

section \<open>Example engines\<close>

definition entry_of_class :: "string \<Rightarrow> word_entry" where
  "entry_of_class c =
     \<lparr>word_class = c, singular = [], plural = [], synonyms = [], antonyms = [],
      meaning = [], acronyms = [], pattern_data = JObject [], expert_field = ''general''\<rparr>"

text \<open>A lexicon of two words, one a prefix of the other.\<close>

definition dog_llm :: llm where
  "dog_llm = new_llm\<lparr>word_db := [(''do'', entry_of_class ''verb''),
                                  (''dog'', entry_of_class ''noun'')]\<rparr>"

text \<open>The two-word engine after the analysis of one sentence.\<close>

definition trained_llm :: llm where
  "trained_llm = state_after (analyze_patterns ''dog runs'' dog_llm)"




text \<open>The engine after the first line of the sample dictionary.\<close>

definition computer_llm :: llm where
  "computer_llm =
     (case import_line loads_empty_object computer_line new_llm of
        Inr s \<Rightarrow> s | Inl err \<Rightarrow> new_llm)"

text \<open>A second record for the same word, with another class and meaning.\<close>

definition conflicting_line :: string where
  "conflicting_line = ''verb; Computer; compute; ; reckon; ; to calculate; ; {}''"

section \<open>Verified properties\<close>

subsection \<open>Word-class lookup\<close>

lemma first_prefix_class_unknown:
  "(\<And>p. p \<in> set ps \<Longrightarrow> map_of db p = None) \<Longrightarrow> first_prefix_class db ps = ''unknown''"
  by (induction ps) auto

lemma first_prefix_class_first:
  "i < length ps \<Longrightarrow> map_of db (ps ! i) = Some e \<Longrightarrow> (\<And>j. j < i \<Longrightarrow> map_of db (ps ! j) = None)
   \<Longrightarrow> first_prefix_class db ps = word_class e"
proof (induction ps arbitrary: i)
  case Nil
  then show ?case by simp
next
  case (Cons p ps)
  show ?case
  proof (cases i)
    case 0
    with Cons.prems show ?thesis by simp
  next
    case (Suc k)
    from Cons.prems(3)[of 0] Suc have p: "map_of db p = None" by simp
    have "first_prefix_class db ps = word_class e"
    proof (rule Cons.IH[of k])
      show "k < length ps" using Cons.prems(1) Suc by simp
      show "map_of db (ps ! k) = Some e" using Cons.prems(2) Suc by simp
      fix j assume "j < k"
      then show "map_of db (ps ! j) = None" using Cons.prems(3)[of "Suc j"] Suc by simp
    qed
    with p show ?thesis by simp
  qed
qed

lemma prefixes_of_nth: "i < length w \<Longrightarrow> prefixes_of w ! i = take (Suc i) w"
  unfolding prefixes_of_def by (simp del: upt_Suc)

lemma length_prefixes_of: "length (prefixes_of w) = length w"
  unfolding prefixes_of_def by (simp del: upt_Suc)

text \<open>
  Claim C6. The class of a word is the stored class when the word is a key of the lexicon.
  Otherwise the prefixes of the word are tried from length 1 upward, and the class of the
  first one that is a key, the shortest, is returned; with no such prefix the result is
  \<^verbatim>\<open>unknown\<close>. The lookup is a total function with no raising branch.
\<close>

theorem get_word_class_lookup:
  "(map_of (word_db s) w = Some e \<longrightarrow> get_word_class s w = word_class e) \<and>
   (map_of (word_db s) w = None \<and> 1 \<le> i \<and> i \<le> length w
      \<and> map_of (word_db s) (take i w) = Some e'
      \<and> (\<forall>j. 1 \<le> j \<and> j < i \<longrightarrow> map_of (word_db s) (take j w) = None)
      \<longrightarrow> get_word_class s w = word_class e') \<and>
   (map_of (word_db s) w = None
      \<and> (\<forall>j. 1 \<le> j \<and> j \<le> length w \<longrightarrow> map_of (word_db s) (take j w) = None)
      \<longrightarrow> get_word_class s w = ''unknown'')"
proof (intro conjI impI)
  assume "map_of (word_db s) w = Some e"
  then show "get_word_class s w = word_class e" by (simp add: get_word_class_def)
next
  assume a: "map_of (word_db s) w = None \<and> 1 \<le> i \<and> i \<le> length w
      \<and> map_of (word_db s) (take i w) = Some e'
      \<and> (\<forall>j. 1 \<le> j \<and> j < i \<longrightarrow> map_of (word_db s) (take j w) = None)"
  then obtain k where k: "i = Suc k" by (cases i) auto
  have "first_prefix_class (word_db s) (prefixes_of w) = word_class e'"
  proof (rule first_prefix_class_first[of k])
    show "k < length (prefixes_of w)" using a k by (simp add: length_prefixes_of)
    show "map_of (word_db s) (prefixes_of w ! k) = Some e'"
      using a k by (simp add: prefixes_of_nth)
    fix j assume "j < k"
    then show "map_of (word_db s) (prefixes_of w ! j) = None"
      using a k by (simp add: prefixes_of_nth)
  qed
  with a show "get_word_class s w = word_class e'" by (simp add: get_word_class_def)
next
  assume a: "map_of (word_db s) w = None
      \<and> (\<forall>j. 1 \<le> j \<and> j \<le> length w \<longrightarrow> map_of (word_db s) (take j w) = None)"
  have "first_prefix_class (word_db s) (prefixes_of w) = ''unknown''"
  proof (rule first_prefix_class_unknown)
    fix p assume "p \<in> set (prefixes_of w)"
    then obtain j where "p = take j w" "1 \<le> j" "j \<le> length w"
      unfolding prefixes_of_def by (auto simp del: upt_Suc)
    with a show "map_of (word_db s) p = None" by simp
  qed
  with a show "get_word_class s w = ''unknown''" by (simp add: get_word_class_def)
qed

theorem get_word_class_lookup_witness:
  "map_of (word_db dog_llm) ''dog'' = Some (entry_of_class ''noun'') \<and>
   get_word_class dog_llm ''dog'' = ''noun'' \<and>
   map_of (word_db dog_llm) ''dogs'' = None \<and>
   map_of (word_db dog_llm) (take 2 ''dogs'') = Some (entry_of_class ''verb'') \<and>
   map_of (word_db dog_llm) (take 3 ''dogs'') = Some (entry_of_class ''noun'') \<and>
   get_word_class dog_llm ''dogs'' = ''verb'' \<and>
   map_of (word_db dog_llm) ''qzxy'' = None \<and>
   get_word_class dog_llm ''qzxy'' = ''unknown''"
proof -
  have db: "word_db dog_llm = [(''do'', entry_of_class ''verb''), (''dog'', entry_of_class ''noun'')]"
    by (simp add: dog_llm_def)
  have c: "word_class (entry_of_class ''noun'') = ''noun''" "word_class (entry_of_class ''verb'') = ''verb''"
    by (simp_all add: entry_of_class_def)
  have a1: "map_of (word_db dog_llm) ''dog'' = Some (entry_of_class ''noun'')"
    by (simp add: db)
  have a2: "map_of (word_db dog_llm) ''dogs'' = None" by (simp add: db)
  have a3: "map_of (word_db dog_llm) (take 2 ''dogs'') = Some (entry_of_class ''verb'')"
    by (simp add: db)
  have a3': "map_of (word_db dog_llm) (take 3 ''dogs'') = Some (entry_of_class ''noun'')"
    by (simp add: db)
  have a4: "\<forall>j. 1 \<le> j \<and> j < (2::nat) \<longrightarrow> map_of (word_db dog_llm) (take j ''dogs'') = None"
  proof (intro allI impI)
    fix j :: nat assume "1 \<le> j \<and> j < 2"
    then have "j = 1" by arith
    then show "map_of (word_db dog_llm) (take j ''dogs'') = None" by (simp add: db)
  qed
  have a5: "map_of (word_db dog_llm) ''qzxy'' = None" by (simp add: db)
  have a6: "\<forall>j. 1 \<le> j \<and> j \<le> length ''qzxy'' \<longrightarrow> map_of (word_db dog_llm) (take j ''qzxy'') = None"
  proof (intro allI impI)
    fix j :: nat assume "1 \<le> j \<and> j \<le> length ''qzxy''"
    then have "j = 1 \<or> j = 2 \<or> j = 3 \<or> j = 4" by (simp, arith)
    then show "map_of (word_db dog_llm) (take j ''qzxy'') = None" by (auto simp: db)
  qed
  have r1: "get_word_class dog_llm ''dog'' = ''noun''"
    using get_word_class_lookup[of dog_llm "''dog''" "entry_of_class ''noun''"] a1 c by simp
  have r2: "get_word_class dog_llm ''dogs'' = ''verb''"
    using get_word_class_lookup[of dog_llm "''dogs''" _ 2 "entry_of_class ''verb''"] a2 a3 a4 c
    by simp
  have r3: "get_word_class dog_llm ''qzxy'' = ''unknown''"
    using get_word_class_lookup[of dog_llm "''qzxy''"] a5 a6 by blast
  from a1 a2 a3 a3' a5 r1 r2 r3 show ?thesis by simp
qed

subsection \<open>Known-word ratio\<close>

lemma known_le_word_count: "known_count s ws \<le> word_count ws"
  unfolding known_count_def word_count_def
  by (induction ws) auto

lemma known_words_ratio_value:
  "calculate_known_words_ratio s ws
     = Inr (if word_count ws = 0 then 0
            else real (known_count s ws) / real (word_count ws) * 100)"
  by (simp add: calculate_known_words_ratio_def py_div_def)

lemma known_words_ratio_range:
  "\<exists>r. calculate_known_words_ratio s ws = Inr r \<and> 0 \<le> r \<and> r \<le> 100"
proof (cases "word_count ws = 0")
  case True
  then show ?thesis by (simp add: known_words_ratio_value)
next
  case False
  have "real (known_count s ws) \<le> real (word_count ws)"
    using known_le_word_count[of s ws] by simp
  moreover have "0 < real (word_count ws)" using False by simp
  ultimately have "real (known_count s ws) / real (word_count ws) \<le> 1"
    by (simp add: divide_le_eq_1)
  then have "real (known_count s ws) / real (word_count ws) * 100 \<le> 1 * 100"
    by (rule mult_right_mono) simp
  then show ?thesis using False by (simp add: known_words_ratio_value)
qed

text \<open>
  Claim C9. The known-word ratio is always returned, never the error of a division by
  zero: it is 0 when no token is left after the punctuation filter, as for the empty
  text, and otherwise 100 times the number of tokens that are not punctuation and have a
  class other than \<^verbatim>\<open>unknown\<close>, divided by the number of tokens that are not punctuation.
  It lies between 0 and 100. After a further token of class \<^verbatim>\<open>unknown\<close> that is not
  punctuation the ratio is 100 times the old numerator over the old denominator plus one.
\<close>

theorem known_ratio_bounds:
  "calculate_known_words_ratio s ws
     = Inr (if length (filter (\<lambda>w. \<not> in_punctuation w) ws) = 0 then 0
            else real (length (filter (\<lambda>w. \<not> in_punctuation w
                                            \<and> get_word_class s w \<noteq> ''unknown'') ws))
                 / real (length (filter (\<lambda>w. \<not> in_punctuation w) ws)) * 100) \<and>
   calculate_known_words_ratio s (all_tokens []) = Inr 0 \<and>
   (\<exists>r. calculate_known_words_ratio s ws = Inr r \<and> 0 \<le> r \<and> r \<le> 100) \<and>
   (\<not> in_punctuation w \<and> get_word_class s w = ''unknown'' \<longrightarrow>
      calculate_known_words_ratio s (ws @ [w])
        = Inr (real (length (filter (\<lambda>w. \<not> in_punctuation w
                                          \<and> get_word_class s w \<noteq> ''unknown'') ws))
               / real (length (filter (\<lambda>w. \<not> in_punctuation w) ws) + 1) * 100))"
proof (intro conjI impI)
  show "calculate_known_words_ratio s ws
     = Inr (if length (filter (\<lambda>w. \<not> in_punctuation w) ws) = 0 then 0
            else real (length (filter (\<lambda>w. \<not> in_punctuation w
                                            \<and> get_word_class s w \<noteq> ''unknown'') ws))
                 / real (length (filter (\<lambda>w. \<not> in_punctuation w) ws)) * 100)"
    using known_words_ratio_value[of s ws] by (simp add: word_count_def known_count_def)
next
  show "calculate_known_words_ratio s (all_tokens []) = Inr 0"
    by (simp add: known_words_ratio_value all_tokens_def lower_def flush_def word_count_def)
next
  show "\<exists>r. calculate_known_words_ratio s ws = Inr r \<and> 0 \<le> r \<and> r \<le> 100"
    by (rule known_words_ratio_range)
next
  assume "\<not> in_punctuation w \<and> get_word_class s w = ''unknown''"
  then show "calculate_known_words_ratio s (ws @ [w])
        = Inr (real (length (filter (\<lambda>w. \<not> in_punctuation w
                                          \<and> get_word_class s w \<noteq> ''unknown'') ws))
               / real (length (filter (\<lambda>w. \<not> in_punctuation w) ws) + 1) * 100)"
    using known_words_ratio_value[of s "ws @ [w]"] by (simp add: word_count_def known_count_def)
qed

theorem known_ratio_bounds_witness:
  "calculate_known_words_ratio dog_llm [''.'', ''?''] = Inr 0 \<and>
   \<not> in_punctuation ''zz'' \<and> get_word_class dog_llm ''zz'' = ''unknown'' \<and>
   calculate_known_words_ratio dog_llm [''dog'', ''qzxy''] = Inr 50 \<and>
   calculate_known_words_ratio dog_llm ([''dog'', ''qzxy''] @ [''zz'']) = Inr (100 / 3)"
proof -
  have h1: "\<not> in_punctuation ''zz''" by code_simp
  have h2: "get_word_class dog_llm ''zz'' = ''unknown''" by code_simp
  have h3: "calculate_known_words_ratio dog_llm [''dog'', ''qzxy''] = Inr 50" by code_simp
  have h4: "calculate_known_words_ratio dog_llm [''.'', ''?''] = Inr 0" by code_simp
  have h5: "real (length (filter (\<lambda>w. \<not> in_punctuation w
                                     \<and> get_word_class dog_llm w \<noteq> ''unknown'') [''dog'', ''qzxy'']))
               / real (length (filter (\<lambda>w. \<not> in_punctuation w) [''dog'', ''qzxy'']) + 1) * 100
            = 100 / 3" by code_simp
  from known_ratio_bounds[of dog_llm "[''dog'', ''qzxy'']" "''zz''"] h1 h2 h3 h4 h5
  show ?thesis by simp
qed

subsection \<open>Word limits\<close>

text \<open>
  The setters written inside \<^verbatim>\<open>__init__\<close> would keep
  \<open>1 \<le> _min_words \<le> _max_words \<le> 100\<close>, and they never touch the attributes
  \<^verbatim>\<open>min_words\<close> and \<^verbatim>\<open>max_words\<close> that the rest of the code reads.
\<close>

lemma setters_keep_bounds:
  assumes "1 \<le> priv_min_words s" "priv_min_words s \<le> priv_max_words s" "priv_max_words s \<le> 100"
  shows "1 \<le> priv_min_words (min_words_setter v s)
         \<and> priv_min_words (min_words_setter v s) \<le> priv_max_words (min_words_setter v s)
         \<and> priv_max_words (min_words_setter v s) \<le> 100
         \<and> 1 \<le> priv_min_words (max_words_setter v s)
         \<and> priv_min_words (max_words_setter v s) \<le> priv_max_words (max_words_setter v s)
         \<and> priv_max_words (max_words_setter v s) \<le> 100"
  using assms by (auto simp: min_words_setter_def max_words_setter_def Let_def)

lemma setters_leave_attributes:
  "min_words (min_words_setter v s) = min_words s \<and> max_words (min_words_setter v s) = max_words s
   \<and> min_words (max_words_setter v s) = min_words s \<and> max_words (max_words_setter v s) = max_words s"
  by (simp add: min_words_setter_def max_words_setter_def Let_def)

text \<open>
  Claim C1. The assignments to \<^verbatim>\<open>min_words\<close> and \<^verbatim>\<open>max_words\<close> store the number as it is
  given: on the engine as \<^verbatim>\<open>__init__\<close> leaves it, \<^verbatim>\<open>--min50\<close> puts the minimum at 50 above
  the maximum of 20, \<^verbatim>\<open>--min0\<close> puts it at 0, and \<^verbatim>\<open>--max500\<close> puts the maximum at 500.
\<close>

theorem word_limits_not_validated:
  "min_words (handle_word_limits ''--min50'' new_llm) = 50 \<and>
   max_words (handle_word_limits ''--min50'' new_llm) = 20 \<and>
   min_words (handle_word_limits ''--min0'' new_llm) = 0 \<and>
   max_words (handle_word_limits ''--max500'' new_llm) = 500"
  by code_simp

subsection \<open>Prediction on empty input\<close>

text \<open>
  Claim C10. On a text that is empty after stripping white space, \<^verbatim>\<open>enhanced_predict_next\<close>
  returns the empty list with a ratio of 100, whatever the lexicon holds; the engine
  only has its four feature flags reset.
\<close>

theorem enhanced_predict_blank:
  "strip text = [] \<Longrightarrow> enhanced_predict_next text pmode s = (Inr ([], 100), reset_flags s)"
  by (simp add: enhanced_predict_next_def Let_def)

theorem enhanced_predict_blank_witness:
  "strip [CHR '' '', CHR 0x09, CHR '' ''] = [] \<and>
   enhanced_predict_next [CHR '' '', CHR 0x09, CHR '' ''] ''complex'' computer_llm
     = (Inr ([], 100), reset_flags computer_llm) \<and>
   enhanced_predict_next [] ''complex'' dog_llm = (Inr ([], 100), reset_flags dog_llm)"
proof -
  have h1: "strip [CHR '' '', CHR 0x09, CHR '' ''] = []" by code_simp
  have h2: "strip [] = []" by code_simp
  from enhanced_predict_blank[OF h1, of "''complex''" computer_llm]
       enhanced_predict_blank[OF h2, of "''complex''" dog_llm] h1
  show ?thesis by simp
qed

text \<open>
  Claim C7. On a text with no word token \<^verbatim>\<open>predict_next\<close> raises nothing and returns the
  bare empty list, not a pair; \<^verbatim>\<open>enhanced_predict_next\<close>, which unpacks a pair, then
  raises \<^verbatim>\<open>ValueError\<close> unless the text is blank.
\<close>

theorem predict_without_words:
  "input_words text = [] \<Longrightarrow>
     predict_next s text pmode = Inr EmptyList \<and>
     (strip text \<noteq> [] \<longrightarrow> fst (enhanced_predict_next text pmode s) = Inl ValueError)"
  by (simp add: predict_next_def enhanced_predict_next_def Let_def)

theorem predict_without_words_witness:
  "input_words ''?!'' = [] \<and> strip ''?!'' \<noteq> [] \<and>
   predict_next dog_llm ''?!'' ''simple'' = Inr EmptyList \<and>
   fst (enhanced_predict_next ''?!'' ''simple'' dog_llm) = Inl ValueError"
proof -
  have h1: "input_words ''?!'' = []" by code_simp
  have h2: "strip ''?!'' \<noteq> []" by code_simp
  from predict_without_words[OF h1, of dog_llm "''simple''"] h1 h2
  show ?thesis by simp
qed

subsection \<open>Lexicon import\<close>

text \<open>
  Claim C5. A line whose lower-cased word is already a key of the lexicon leaves the
  whole engine as it was: the entry of the word, every other entry and every edge.
\<close>

theorem reimport_is_noop:
  "2 \<le> length (line_parts line) \<Longrightarrow> has_key (word_db s) (lower (line_parts line ! 1)) \<Longrightarrow>
     import_line loads line s = Inr s"
  by (simp add: import_line_def Let_def)

theorem reimport_is_noop_witness:
  "2 \<le> length (line_parts conflicting_line) \<and>
   has_key (word_db computer_llm) (lower (line_parts conflicting_line ! 1)) \<and>
   import_line loads_empty_object conflicting_line computer_llm = Inr computer_llm \<and>
   map_option word_class (map_of (word_db computer_llm) ''computer'') = Some ''noun''"
proof -
  have h1: "2 \<le> length (line_parts conflicting_line)" by code_simp
  have h2: "has_key (word_db computer_llm) (lower (line_parts conflicting_line ! 1))" by code_simp
  have h3: "map_option word_class (map_of (word_db computer_llm) ''computer'') = Some ''noun''"
    by code_simp
  from reimport_is_noop[OF h1 h2, of loads_empty_object] h1 h2 h3
  show ?thesis by simp
qed

subsection \<open>Edges built by an import\<close>

text \<open>Reading an association list after an update, and an edge after an addition.\<close>

lemma map_of_dupd:
  "map_of (dupd d f k m) k' = (if k' = k then Some (f (dget d m k)) else map_of m k')"
  by (induction m) (auto simp: dget_def)

lemma dget_dupd:
  "dget d (dupd d f k m) k' = (if k' = k then f (dget d m k) else dget d m k')"
  by (simp add: dget_def map_of_dupd)

lemma dget_dadd: "dget 0 (dadd k x m) k' = (if k' = k then dget 0 m k + x else dget 0 m k')"
  by (simp add: dadd_def dget_dupd)

lemma graph_weight_rel_add:
  "graph_weight (rel_add a b x s) a' b'
     = graph_weight s a' b' + (if a' = a \<and> b' = b then x else 0)"
  by (simp add: graph_weight_def rel_add_def dget_dupd dget_dadd)

lemma rel_add_keeps [simp]:
  "word_db (rel_add a b x s) = word_db s"
  "grammar_rules (rel_add a b x s) = grammar_rules s"
  "pattern_relationships (rel_add a b x s) = pattern_relationships s"
  by (simp_all add: rel_add_def)

lemma graph_weight_link_both:
  "graph_weight (link_both w x other s) a b
     = graph_weight s a b + (if a = w \<and> b = other then x else 0)
       + (if a = other \<and> b = w then x else 0)"
  by (simp add: link_both_def graph_weight_rel_add)

lemma link_both_keeps [simp]:
  "word_db (link_both w x other s) = word_db s"
  "grammar_rules (link_both w x other s) = grammar_rules s"
  by (simp_all add: link_both_def)

lemma fold_link_both_keeps [simp]:
  "word_db (fold (link_both w x) others s) = word_db s"
  "grammar_rules (fold (link_both w x) others s) = grammar_rules s"
  by (induction others arbitrary: s) simp_all

lemma graph_weight_fold_link_both:
  "graph_weight (fold (link_both w x) others s) a b
     = graph_weight s a b + (if a = w then x * real (count_list others b) else 0)
       + (if b = w then x * real (count_list others a) else 0)"
proof (induction others arbitrary: s)
  case Nil
  show ?case by simp
next
  case (Cons other others)
  show ?case
    by (simp add: Cons.IH graph_weight_link_both algebra_simps)
qed

lemma graph_weight_class_link:
  "\<not> (a = w \<and> b = fst item \<and> fst item \<noteq> w \<and> word_class (snd item) \<in> set compatible)
   \<Longrightarrow> graph_weight (class_link w compatible item s) a b = graph_weight s a b"
  by (auto simp: class_link_def graph_weight_rel_add)

lemma graph_weight_fold_class_link:
  "(\<And>item. item \<in> set items \<Longrightarrow>
      \<not> (a = w \<and> b = fst item \<and> fst item \<noteq> w \<and> word_class (snd item) \<in> set compatible))
   \<Longrightarrow> graph_weight (fold (class_link w compatible) items s) a b = graph_weight s a b"
proof (induction items arbitrary: s)
  case Nil
  show ?case by simp
next
  case (Cons item items)
  have "graph_weight (fold (class_link w compatible) items (class_link w compatible item s)) a b
          = graph_weight (class_link w compatible item s) a b"
    by (rule Cons.IH) (simp add: Cons.prems)
  also have "\<dots> = graph_weight s a b"
    by (rule graph_weight_class_link) (simp add: Cons.prems)
  finally show ?case by simp
qed

lemma class_link_keeps [simp]: "word_db (class_link w compatible item s) = word_db s"
  by (simp add: class_link_def)

lemma fold_class_link_keeps [simp]:
  "word_db (fold (class_link w compatible) items s) = word_db s"
  by (induction items arbitrary: s) simp_all

lemma partial_link_keeps [simp]: "word_db (partial_link w i s) = word_db s"
  by (simp add: partial_link_def Let_def)

lemma graph_weight_partial_link:
  "\<not> (has_key (word_db s) (take i w) \<and> ((a = w \<and> b = take i w) \<or> (a = take i w \<and> b = w)))
   \<Longrightarrow> graph_weight (partial_link w i s) a b = graph_weight s a b"
  by (auto simp: partial_link_def Let_def graph_weight_link_both)

lemma graph_weight_fold_partial_link:
  "(\<And>i. i \<in> set idxs \<Longrightarrow>
      \<not> (has_key (word_db s) (take i w) \<and> ((a = w \<and> b = take i w) \<or> (a = take i w \<and> b = w))))
   \<Longrightarrow> graph_weight (fold (partial_link w) idxs s) a b = graph_weight s a b"
proof (induction idxs arbitrary: s)
  case Nil
  show ?case by simp
next
  case (Cons i idxs)
  have "graph_weight (fold (partial_link w) idxs (partial_link w i s)) a b
          = graph_weight (partial_link w i s) a b"
    by (rule Cons.IH) (simp add: Cons.prems)
  also have "\<dots> = graph_weight s a b"
    by (rule graph_weight_partial_link) (simp add: Cons.prems)
  finally show ?case by simp
qed

lemma map_of_append_new: "\<not> has_key m k \<Longrightarrow> map_of (m @ [(k, v)]) k = Some v"
  by (induction m) (auto simp: has_key_def)

lemma has_key_append: "has_key (m @ [(k, v)]) k' = (has_key m k' \<or> k' = k)"
  by (auto simp: has_key_def)

text \<open>
  The weight of any edge after \<^verbatim>\<open>_build_relationships\<close>, when the class rule does not
  apply to it: the old weight plus 2.0 for each listing as a synonym, minus 1.5 for each
  listing as an antonym, plus 1.0 for each listing as an acronym, in either direction.
\<close>

lemma build_relationships_weight:
  assumes data: "map_of (word_db s) w = Some data"
    and cls: "\<And>compatible item.
        map_of (common_pairs (grammar_rules s)) (word_class data) = Some compatible \<Longrightarrow>
        item \<in> set (word_db s) \<Longrightarrow>
        \<not> (a = w \<and> b = fst item \<and> fst item \<noteq> w \<and> word_class (snd item) \<in> set compatible)"
  shows "\<exists>s'. build_relationships w s = Inr s' \<and> word_db s' = word_db s \<and>
           graph_weight s' a b
             = graph_weight s a b
               + (if a = w then 2 * real (count_list (synonyms data) b)
                                - 1.5 * real (count_list (antonyms data) b)
                                + real (count_list (acronyms data) b) else 0)
               + (if b = w then 2 * real (count_list (synonyms data) a)
                                - 1.5 * real (count_list (antonyms data) a)
                                + real (count_list (acronyms data) a) else 0)"
proof -
  define s1 where "s1 = fold (link_both w 2.0) (synonyms data) s"
  define s2 where "s2 = fold (link_both w (- 1.5)) (antonyms data) s1"
  define s3 where "s3 = fold (link_both w 1.0) (acronyms data) s2"
  define s4 where "s4 = (case map_of (common_pairs (grammar_rules s3)) (word_class data) of
                     None \<Rightarrow> s3
                   | Some compatible \<Rightarrow> fold (class_link w compatible) (word_db s3) s3)"
  have res: "build_relationships w s = Inr s4"
    unfolding s4_def s3_def s2_def s1_def build_relationships_def
    by (simp add: data Let_def cong: option.case_cong)
  have db3: "word_db s3 = word_db s" and g3: "grammar_rules s3 = grammar_rules s"
    by (simp_all add: s3_def s2_def s1_def)
  have db4: "word_db s4 = word_db s"
    by (simp add: s4_def db3 split: option.split)
  have w3: "graph_weight s3 a b
             = graph_weight s a b
               + (if a = w then 2 * real (count_list (synonyms data) b)
                                - 1.5 * real (count_list (antonyms data) b)
                                + real (count_list (acronyms data) b) else 0)
               + (if b = w then 2 * real (count_list (synonyms data) a)
                                - 1.5 * real (count_list (antonyms data) a)
                                + real (count_list (acronyms data) a) else 0)"
    by (simp add: s3_def s2_def s1_def graph_weight_fold_link_both)
  have w4: "graph_weight s4 a b = graph_weight s3 a b"
  proof (cases "map_of (common_pairs (grammar_rules s3)) (word_class data)")
    case None
    then show ?thesis by (simp add: s4_def)
  next
    case (Some compatible)
    have "graph_weight (fold (class_link w compatible) (word_db s3) s3) a b = graph_weight s3 a b"
    proof (rule graph_weight_fold_class_link)
      fix item assume "item \<in> set (word_db s3)"
      then show "\<not> (a = w \<and> b = fst item \<and> fst item \<noteq> w
                     \<and> word_class (snd item) \<in> set compatible)"
        using cls[of compatible item] Some by (simp add: db3 g3)
    qed
    with Some show ?thesis by (simp add: s4_def)
  qed
  from res db4 w3 w4 show ?thesis by simp
qed

text \<open>
  Claim C3, as the code has it. Take a dictionary line that is imported: it is read, its
  word \<open>w1\<close> is new, and the import returns. Let \<open>w2\<close> be another word that the line
  lists exactly once as a synonym and neither as an antonym nor as an acronym. Let
  \<open>w2\<close> not be a lexicon word of a class that \<^verbatim>\<open>common_pairs\<close> gives for the class of the
  line, nor a lexicon word that is a proper prefix of \<open>w1\<close>. If both edges between the two
  words were 0 before, both are exactly 2 after the import of the line.
\<close>

theorem synonym_weight_after_import:
  assumes imp: "import_line loads line s = Inr s'"
    and read: "strip line \<noteq> []" "\<not> startswith line ''#''" "2 \<le> length (line_parts line)"
    and w1: "w1 = lower (line_parts line ! 1)" "\<not> has_key (word_db s) w1"
    and once: "count_list (csv_field (line_parts line) 4) w2 = 1"
    and other: "w2 \<noteq> w1"
    and ant: "w2 \<notin> set (csv_field (line_parts line) 5)"
    and acr: "w2 \<notin> set (csv_field (line_parts line) 7)"
    and cls: "\<forall>compatible e.
        map_of (common_pairs (grammar_rules s)) (line_parts line ! 0) = Some compatible
        \<and> (w2, e) \<in> set (word_db s) \<longrightarrow> word_class e \<notin> set compatible"
    and part: "has_key (word_db s) w2 \<longrightarrow> w2 = [] \<or> \<not> strict_prefix w2 w1"
    and before: "graph_weight s w1 w2 = 0" "graph_weight s w2 w1 = 0"
  shows "graph_weight s' w1 w2 = 2 \<and> graph_weight s' w2 w1 = 2"
proof -
  define parts where "parts = line_parts line"
  obtain entry where entry: "make_entry loads parts w1 = Inr entry"
    using imp read w1
    by (auto simp: import_line_def Let_def parts_def split: sum.splits)
  have fields: "synonyms entry = csv_field parts 4" "antonyms entry = csv_field parts 5"
    "acronyms entry = csv_field parts 7" "word_class entry = parts ! 0"
    using entry by (auto simp: make_entry_def split: option.splits)
  define t where "t = s\<lparr>word_db := word_db s @ [(w1, entry)]\<rparr>"
  have tdata: "map_of (word_db t) w1 = Some entry"
    using map_of_append_new[OF w1(2), of entry] by (simp add: t_def)
  have tg: "grammar_rules t = grammar_rules s" and tw: "\<And>a b. graph_weight t a b = graph_weight s a b"
    by (simp_all add: t_def graph_weight_def)
  have cls1: "\<And>compatible item.
        map_of (common_pairs (grammar_rules t)) (word_class entry) = Some compatible \<Longrightarrow>
        item \<in> set (word_db t) \<Longrightarrow>
        \<not> (w1 = w1 \<and> w2 = fst item \<and> fst item \<noteq> w1 \<and> word_class (snd item) \<in> set compatible)"
  proof -
    fix compatible item
    assume c: "map_of (common_pairs (grammar_rules t)) (word_class entry) = Some compatible"
      and i: "item \<in> set (word_db t)"
    show "\<not> (w1 = w1 \<and> w2 = fst item \<and> fst item \<noteq> w1 \<and> word_class (snd item) \<in> set compatible)"
    proof
      assume h: "w1 = w1 \<and> w2 = fst item \<and> fst item \<noteq> w1 \<and> word_class (snd item) \<in> set compatible"
      then have "item \<in> set (word_db s)" using i by (auto simp: t_def)
      then have "(w2, snd item) \<in> set (word_db s)" using h by simp
      with cls c have "word_class (snd item) \<notin> set compatible"
        by (simp add: tg fields parts_def)
      with h show False by simp
    qed
  qed
  have cls2: "\<And>compatible item.
        map_of (common_pairs (grammar_rules t)) (word_class entry) = Some compatible \<Longrightarrow>
        item \<in> set (word_db t) \<Longrightarrow>
        \<not> (w2 = w1 \<and> w1 = fst item \<and> fst item \<noteq> w1 \<and> word_class (snd item) \<in> set compatible)"
    by simp
  from build_relationships_weight[OF tdata cls1]
  obtain u where u: "build_relationships w1 t = Inr u" "word_db u = word_db t"
    and u12: "graph_weight u w1 w2 = 2"
    using once ant acr other before by (auto simp: fields tw parts_def)
  from build_relationships_weight[OF tdata cls2] u
  have u21: "graph_weight u w2 w1 = 2"
    using once ant acr other before by (auto simp: fields tw parts_def)
  have s': "s' = check_partial_matches w1 u"
    using imp read w1 entry u by (simp add: import_line_def Let_def parts_def t_def)
  have nopart: "\<And>i. i \<in> set [1 ..< length w1] \<Longrightarrow>
      \<not> (has_key (word_db u) (take i w1)
          \<and> ((a = w1 \<and> b = take i w1) \<or> (a = take i w1 \<and> b = w1)))"
    if ab: "(a = w1 \<and> b = w2) \<or> (a = w2 \<and> b = w1)" for a b
  proof -
    fix i assume i: "i \<in> set [1 ..< length w1]"
    show "\<not> (has_key (word_db u) (take i w1)
          \<and> ((a = w1 \<and> b = take i w1) \<or> (a = take i w1 \<and> b = w1)))"
    proof
      assume h: "has_key (word_db u) (take i w1)
          \<and> ((a = w1 \<and> b = take i w1) \<or> (a = take i w1 \<and> b = w1))"
      have ne: "take i w1 \<noteq> w1" using i by (auto dest: arg_cong[of _ _ length])
      from h ab ne other have eq: "take i w1 = w2" by auto
      have "has_key (word_db s) w2"
        using h eq other by (simp add: u t_def has_key_append)
      moreover have "w2 \<noteq> []" using eq i by auto
      moreover have "strict_prefix w2 w1"
        using eq ne take_is_prefix[of i w1] by (auto simp: strict_prefix_def)
      ultimately show False using part by simp
    qed
  qed
  have "graph_weight s' w1 w2 = graph_weight u w1 w2"
    unfolding s' check_partial_matches_def
    by (rule graph_weight_fold_partial_link) (rule nopart, simp)
  moreover have "graph_weight s' w2 w1 = graph_weight u w2 w1"
    unfolding s' check_partial_matches_def
    by (rule graph_weight_fold_partial_link) (rule nopart, simp)
  ultimately show ?thesis using u12 u21 by simp
qed

theorem synonym_weight_after_import_witness:
  "import_line loads_empty_object computer_line new_llm = Inr computer_llm \<and>
   strip computer_line \<noteq> [] \<and> \<not> startswith computer_line ''#'' \<and>
   2 \<le> length (line_parts computer_line) \<and>
   ''computer'' = lower (line_parts computer_line ! 1) \<and>
   \<not> has_key (word_db new_llm) ''computer'' \<and>
   count_list (csv_field (line_parts computer_line) 4) ''machine'' = 1 \<and>
   ''machine'' \<notin> set (csv_field (line_parts computer_line) 5) \<and>
   ''machine'' \<notin> set (csv_field (line_parts computer_line) 7) \<and>
   \<not> has_key (word_db new_llm) ''machine'' \<and>
   graph_weight new_llm ''computer'' ''machine'' = 0 \<and>
   graph_weight new_llm ''machine'' ''computer'' = 0 \<and>
   graph_weight computer_llm ''computer'' ''machine'' = 2 \<and>
   graph_weight computer_llm ''machine'' ''computer'' = 2"
proof -
  have h1: "import_line loads_empty_object computer_line new_llm = Inr computer_llm" by code_simp
  have h2: "strip computer_line \<noteq> []" by code_simp
  have h3: "\<not> startswith computer_line ''#''" by code_simp
  have h4: "2 \<le> length (line_parts computer_line)" by code_simp
  have h5: "''computer'' = lower (line_parts computer_line ! 1)" by code_simp
  have h6: "\<not> has_key (word_db new_llm) ''computer''" by code_simp
  have h7: "count_list (csv_field (line_parts computer_line) 4) ''machine'' = 1" by code_simp
  have h8: "''machine'' \<noteq> ''computer''" by simp
  have h9: "''machine'' \<notin> set (csv_field (line_parts computer_line) 5)" by code_simp
  have h10: "''machine'' \<notin> set (csv_field (line_parts computer_line) 7)" by code_simp
  have db: "word_db new_llm = []" by code_simp
  have h11: "\<forall>compatible e.
        map_of (common_pairs (grammar_rules new_llm)) (line_parts computer_line ! 0) = Some compatible
        \<and> (''machine'', e) \<in> set (word_db new_llm) \<longrightarrow> word_class e \<notin> set compatible"
    by (simp add: db)
  have h12': "\<not> has_key (word_db new_llm) ''machine''" by (simp add: db has_key_def)
  then have h12: "has_key (word_db new_llm) ''machine'' \<longrightarrow>
        ''machine'' = [] \<or> \<not> strict_prefix ''machine'' ''computer''" by simp
  have h13: "graph_weight new_llm ''computer'' ''machine'' = 0" by code_simp
  have h14: "graph_weight new_llm ''machine'' ''computer'' = 0" by code_simp
  from synonym_weight_after_import[OF h1 h2 h3 h4 h5 h6 h7 h8 h9 h10 h11 h12 h13 h14]
       h1 h2 h3 h4 h5 h6 h7 h9 h10 h12' h13 h14
  show ?thesis by simp
qed

text \<open>
  The claim without those conditions fails on the first line of the sample dictionary:
  \<^verbatim>\<open>pc\<close> is a synonym of \<^verbatim>\<open>computer\<close> and, lower-cased, one of its acronyms, so both
  edges are 3 after the import.
\<close>

theorem synonym_weight_counterexample:
  "''pc'' \<in> set (csv_field (line_parts computer_line) 4) \<and>
   graph_weight new_llm ''computer'' ''pc'' = 0 \<and> graph_weight new_llm ''pc'' ''computer'' = 0 \<and>
   import_line loads_empty_object computer_line new_llm = Inr computer_llm \<and>
   graph_weight computer_llm ''computer'' ''pc'' = 3 \<and>
   graph_weight computer_llm ''pc'' ''computer'' = 3"
  by code_simp

subsection \<open>Ranking of predictions\<close>

lemma sorted_sort_by_score_desc: "sorted_wrt (\<lambda>a b. snd b \<le> snd a) (sort_by_score_desc xs)"
proof -
  have "sorted (map (\<lambda>p. - snd p) (sort_key (\<lambda>p. - snd p) xs))"
    by (rule sorted_sort_key)
  then show ?thesis by (simp add: sort_by_score_desc_def sorted_map)
qed

lemma stable_sort_by_score_desc:
  "filter (\<lambda>p. snd p = x) (sort_by_score_desc xs) = filter (\<lambda>p. snd p = x) xs"
proof -
  have "filter (\<lambda>p. - snd p = - x) (sort_key (\<lambda>p. - snd p) xs) = filter (\<lambda>p. - snd p = - x) xs"
    by (rule sort_key_stable)
  then show ?thesis by (simp add: sort_by_score_desc_def)
qed

lemma get_top_predictions_sorted:
  "sorted_wrt (\<lambda>a b. snd b \<le> snd a) (get_top_predictions scores)"
  unfolding get_top_predictions_def by (rule sorted_wrt_take) (rule sorted_sort_by_score_desc)

lemma get_top_predictions_positive: "p \<in> set (get_top_predictions scores) \<Longrightarrow> 0 < snd p"
  unfolding get_top_predictions_def sort_by_score_desc_def by (auto dest: in_set_takeD)

lemma get_top_predictions_length: "length (get_top_predictions scores) \<le> 10"
  unfolding get_top_predictions_def by simp

lemma get_top_predictions_stable:
  "prefix (filter (\<lambda>p. snd p = x) (get_top_predictions scores)) (filter (\<lambda>p. snd p = x) scores)"
proof -
  let ?pos = "filter (\<lambda>p. snd p > 0) scores"
  have "prefix (filter (\<lambda>p. snd p = x) (take 10 (sort_by_score_desc ?pos)))
               (filter (\<lambda>p. snd p = x) (sort_by_score_desc ?pos))"
    by (rule filter_mono_prefix) (rule take_is_prefix)
  then have a: "prefix (filter (\<lambda>p. snd p = x) (get_top_predictions scores))
                       (filter (\<lambda>p. snd p = x) ?pos)"
    by (simp add: get_top_predictions_def stable_sort_by_score_desc)
  show ?thesis
  proof (cases "0 < x")
    case True
    then have "filter (\<lambda>p. snd p = x) ?pos = filter (\<lambda>p. snd p = x) scores"
      by (auto intro: filter_cong)
    with a show ?thesis by simp
  next
    case False
    then have "filter (\<lambda>p. snd p = x) ?pos = []"
      by (auto simp: filter_empty_conv)
    with a show ?thesis by simp
  qed
qed

text \<open>
  Claim C4, as the code has it. For every text and mode \<^verbatim>\<open>predict_next\<close> returns, and its
  ranked list is in descending order of score with equal scores allowed (each score is
  at most the one before it), every score is above 0, and there are at most 10 entries.
  Entries of one score stand in the order in which the score table first met them: for
  each score they are a prefix of the table's entries of that score.
\<close>

theorem predict_ranking:
  "\<exists>r. predict_next s text pmode = Inr r
      \<and> sorted_wrt (\<lambda>a b. snd b \<le> snd a) (ranked_list r)
      \<and> (\<forall>p \<in> set (ranked_list r). 0 < snd p)
      \<and> length (ranked_list r) \<le> 10
      \<and> prefix (filter (\<lambda>p. snd p = x) (ranked_list r))
               (filter (\<lambda>p. snd p = x) (score_table s text pmode))"
proof (cases "input_words text = []")
  case True
  then have "predict_next s text pmode = Inr EmptyList"
    by (simp add: predict_next_def)
  then show ?thesis by (simp add: ranked_list_def)
next
  case False
  define top where "top = get_top_predictions (score_table s text pmode)"
  obtain ratio where "calculate_known_words_ratio s (all_tokens text) = Inr ratio"
    using known_words_ratio_range by blast
  then have "predict_next s text pmode = Inr (RankedPair top ratio)"
    using False
    by (simp add: predict_next_def Let_def top_def score_table_def
                  simple_relationship_prediction_def complex_relationship_prediction_def)
  moreover have "sorted_wrt (\<lambda>a b. snd b \<le> snd a) top"
    unfolding top_def by (rule get_top_predictions_sorted)
  moreover have "\<forall>p \<in> set top. 0 < snd p"
    unfolding top_def by (auto dest: get_top_predictions_positive)
  moreover have "length top \<le> 10"
    unfolding top_def by (rule get_top_predictions_length)
  moreover have "prefix (filter (\<lambda>p. snd p = x) top)
                        (filter (\<lambda>p. snd p = x) (score_table s text pmode))"
    unfolding top_def by (rule get_top_predictions_stable)
  ultimately show ?thesis by (auto simp: ranked_list_def)
qed

theorem predict_ranking_witness:
  "predict_next dog_llm ''zzz'' ''simple'' = Inr (RankedPair [(''do'', 0.2), (''dog'', 0.2)] 0) \<and>
   score_table dog_llm ''zzz'' ''simple'' = [(''do'', 0.2), (''dog'', 0.2)] \<and>
   list_all (\<lambda>p. 0 < snd p) [(''do'', 0.2::real), (''dog'', 0.2)] \<and>
   prefix (filter (\<lambda>p. snd p = 0.2) [(''do'', 0.2::real), (''dog'', 0.2)])
          (filter (\<lambda>p. snd p = 0.2) (score_table dog_llm ''zzz'' ''simple''))"
proof -
  have e: "predict_next dog_llm ''zzz'' ''simple'' = Inr (RankedPair [(''do'', 0.2), (''dog'', 0.2)] 0)"
    by code_simp
  have t: "score_table dog_llm ''zzz'' ''simple'' = [(''do'', 0.2), (''dog'', 0.2)]"
    by code_simp
  from predict_ranking[of dog_llm "''zzz''" "''simple''" "0.2"] e t
  show ?thesis by (simp add: ranked_list_def)
qed

text \<open>
  The order is not strict: after an unknown last word every noun and verb of the lexicon
  gets the same flat bonus, and in complex mode the same default scores.
\<close>

theorem predict_ranking_counterexample:
  "predict_next dog_llm ''zzz'' ''simple'' = Inr (RankedPair [(''do'', 0.2), (''dog'', 0.2)] 0) \<and>
   \<not> strictly_descending [(''do'', 0.2), (''dog'', 0.2)] \<and>
   predict_next dog_llm ''zzz'' ''complex'' = Inr (RankedPair [(''do'', 0.05), (''dog'', 0.05)] 0) \<and>
   \<not> strictly_descending [(''do'', 0.05), (''dog'', 0.05)]"
  by code_simp

subsection \<open>Growth of the pattern index\<close>

lemma bucket_grows_refl [simp]: "bucket_grows m m"
  by (simp add: bucket_grows_def)

lemma bucket_grows_trans: "bucket_grows a b \<Longrightarrow> bucket_grows b c \<Longrightarrow> bucket_grows a c"
  unfolding bucket_grows_def by (meson order_trans)

lemma map_of_dadd:
  "map_of (dadd k x m) k' = (if k' = k then Some (dget 0 m k + x) else map_of m k')"
  by (simp add: dadd_def map_of_dupd)

lemma bucket_grows_dadd: "0 \<le> x \<Longrightarrow> bucket_grows m (dadd k x m)"
  by (auto simp: bucket_grows_def map_of_dadd dget_def)

lemma index_grows_refl [simp]: "index_grows s s"
  by (simp add: index_grows_def)

lemma index_grows_trans: "index_grows a b \<Longrightarrow> index_grows b c \<Longrightarrow> index_grows a c"
  unfolding index_grows_def by (meson bucket_grows_trans)

lemma index_grows_same:
  "pattern_relationships s' = pattern_relationships s \<Longrightarrow> index_grows s s'"
  by (simp add: index_grows_def before_bucket_def after_bucket_def position_bucket_def)

lemma buckets_add_before:
  "before_bucket (add_before w other x s) w'
     = (if w' = w then dadd other x (before_bucket s w) else before_bucket s w')"
  "after_bucket (add_before w other x s) w' = after_bucket s w'"
  "position_bucket (add_before w other x s) w' pos = position_bucket s w' pos"
  by (simp_all add: before_bucket_def after_bucket_def position_bucket_def add_before_def
                    dget_dupd)

lemma buckets_add_after:
  "after_bucket (add_after w other x s) w'
     = (if w' = w then dadd other x (after_bucket s w) else after_bucket s w')"
  "before_bucket (add_after w other x s) w' = before_bucket s w'"
  "position_bucket (add_after w other x s) w' pos = position_bucket s w' pos"
  by (simp_all add: before_bucket_def after_bucket_def position_bucket_def add_after_def
                    dget_dupd)

lemma buckets_add_position:
  "position_bucket (add_position w pos other x s) w' pos'
     = (if w' = w \<and> pos' = pos then dadd other x (position_bucket s w pos)
        else position_bucket s w' pos')"
  "before_bucket (add_position w pos other x s) w' = before_bucket s w'"
  "after_bucket (add_position w pos other x s) w' = after_bucket s w'"
  by (simp_all add: before_bucket_def after_bucket_def position_bucket_def add_position_def
                    dget_dupd)

lemma index_grows_add_before: "0 \<le> x \<Longrightarrow> index_grows s (add_before w other x s)"
  by (simp add: index_grows_def buckets_add_before bucket_grows_dadd)

lemma index_grows_add_after: "0 \<le> x \<Longrightarrow> index_grows s (add_after w other x s)"
  by (simp add: index_grows_def buckets_add_after bucket_grows_dadd)

lemma index_grows_add_position: "0 \<le> x \<Longrightarrow> index_grows s (add_position w pos other x s)"
  by (simp add: index_grows_def buckets_add_position bucket_grows_dadd)

lemma rel_touch_index [simp]:
  "pattern_relationships (rel_touch a s) = pattern_relationships s"
  by (simp add: rel_touch_def)

lemma rel_read_index [simp]:
  "pattern_relationships (rel_read a b s) = pattern_relationships s"
  by (simp add: rel_read_def)

lemma semantic_proximity_index [simp]:
  "pattern_relationships (snd (calculate_semantic_proximity s word1 word2 all_words current_index))
     = pattern_relationships s"
  by (simp add: calculate_semantic_proximity_def Let_def)

lemma relevance_step_index [simp]:
  "pattern_relationships (snd (relevance_step word1 word2 theme_word acc))
     = pattern_relationships (snd acc)"
  by (simp add: relevance_step_def Let_def)

lemma fold_relevance_step_index [simp]:
  "pattern_relationships (snd (fold (relevance_step word1 word2) theme_words acc))
     = pattern_relationships (snd acc)"
  by (induction theme_words arbitrary: acc) simp_all

lemma contextual_relevance_index [simp]:
  "pattern_relationships (snd (calculate_contextual_relevance s word1 word2 all_words))
     = pattern_relationships s"
  by (simp add: calculate_contextual_relevance_def Let_def)

lemma pattern_relationship_index [simp]:
  "pattern_relationships (snd (calculate_pattern_relationship s word1 word2 all_words current_index))
     = pattern_relationships s"
  by (simp add: calculate_pattern_relationship_def Let_def)

lemma pattern_relationship_floor:
  "0 \<le> fst (calculate_pattern_relationship s word1 word2 all_words current_index)"
  by (simp add: calculate_pattern_relationship_def Let_def)

lemma index_grows_pattern_step:
  "index_grows s (pattern_step current_word all_words current_index item s)"
proof -
  let ?r = "calculate_pattern_relationship s current_word (snd item) all_words current_index"
  let ?x = "fst ?r"
  have x: "0 \<le> ?x" by (rule pattern_relationship_floor)
  have r: "index_grows s (snd ?r)" by (rule index_grows_same) simp
  let ?s1 = "if fst item < current_index then add_before current_word (snd item) ?x (snd ?r)
             else add_after current_word (snd item) ?x (snd ?r)"
  have a: "index_grows (snd ?r) ?s1"
    using x by (simp add: index_grows_add_before index_grows_add_after)
  have b: "index_grows ?s1
     (add_position current_word (get_word_position (fst item) (length all_words)) (snd item) ?x ?s1)"
    using x by (rule index_grows_add_position)
  show ?thesis
    using index_grows_trans[OF r index_grows_trans[OF a b]]
    by (simp add: pattern_step_def Let_def)
qed

lemma index_grows_fold_pattern_step:
  "index_grows s (fold (pattern_step current_word all_words current_index) items s)"
proof (induction items arbitrary: s)
  case Nil
  show ?case by simp
next
  case (Cons item items)
  show ?case
    using index_grows_trans[OF index_grows_pattern_step Cons.IH] by simp
qed

lemma index_grows_build:
  "index_grows s (build_relationship_patterns current_word all_words current_index s)"
  unfolding build_relationship_patterns_def by (rule index_grows_fold_pattern_step)

lemma update_word_position_data_index:
  "update_word_position_data word position_type s = Inr s'
     \<Longrightarrow> pattern_relationships s' = pattern_relationships s"
  by (auto simp: update_word_position_data_def split: option.splits sum.splits)

lemma index_grows_report_previous: "index_grows s (report_previous ws i word s)"
  by (rule index_grows_same) (simp add: report_previous_def)

lemma index_grows_analyze_word: "index_grows s (state_after (analyze_word ws item s))"
proof -
  let ?s1 = "build_relationship_patterns (snd item) ws (fst item) s"
  have a: "index_grows s ?s1" by (rule index_grows_build)
  have b: "index_grows ?s1 (report_previous ws (fst item) (snd item) s2)"
    if "update_word_position_data (snd item) (get_word_position (fst item) (length ws)) ?s1 = Inr s2"
    for s2
    using index_grows_same[OF update_word_position_data_index[OF that]]
          index_grows_report_previous[of s2 ws "fst item" "snd item"]
    by (rule index_grows_trans)
  have c: "index_grows ?s1 (report_previous ws (fst item) (snd item) ?s1)"
    by (rule index_grows_report_previous)
  show ?thesis
    using a index_grows_trans[OF a b] index_grows_trans[OF a c]
    by (auto simp: analyze_word_def Let_def state_after_def split: sum.splits)
qed

lemma index_grows_analyze_loop: "index_grows s (state_after (analyze_loop ws items s))"
proof (induction items arbitrary: s)
  case Nil
  show ?case by (simp add: state_after_def)
next
  case (Cons item items)
  show ?case
  proof (cases "analyze_word ws item s")
    case (Inl err)
    then have "state_after (analyze_loop ws (item # items) s) = state_after (analyze_word ws item s)"
      by simp
    then show ?thesis by (simp add: index_grows_analyze_word)
  next
    case (Inr s1)
    have "index_grows s s1"
      using index_grows_analyze_word[of s ws item] Inr by (simp add: state_after_def)
    moreover have "index_grows s1 (state_after (analyze_loop ws items s1))" by (rule Cons.IH)
    ultimately show ?thesis using Inr by (auto intro: index_grows_trans)
  qed
qed

text \<open>
  Claim C8. Every pattern relationship strength is at least 0, whatever its reads have
  stored in the graph before. An entry stored in a \<^verbatim>\<open>before\<close>, \<^verbatim>\<open>after\<close> or
  \<^verbatim>\<open>position_context\<close> map of the pattern index is still stored after the analysis of
  any sentence, with a strength that is not smaller; this holds as well for the engine
  that an analysis leaves behind when it stops on an exception.
\<close>

theorem pattern_index_monotone:
  "0 \<le> fst (calculate_pattern_relationship s word1 word2 all_words current_index) \<and>
   (map_of (before_bucket s word) other = Some v \<longrightarrow>
      (\<exists>v'. map_of (before_bucket (state_after (analyze_patterns sentence s)) word) other = Some v'
            \<and> v \<le> v')) \<and>
   (map_of (after_bucket s word) other = Some v \<longrightarrow>
      (\<exists>v'. map_of (after_bucket (state_after (analyze_patterns sentence s)) word) other = Some v'
            \<and> v \<le> v')) \<and>
   (map_of (position_bucket s word pos) other = Some v \<longrightarrow>
      (\<exists>v'. map_of (position_bucket (state_after (analyze_patterns sentence s)) word pos) other
              = Some v' \<and> v \<le> v'))"
proof -
  have "index_grows s (state_after (analyze_patterns sentence s))"
    unfolding analyze_patterns_def Let_def by (rule index_grows_analyze_loop)
  then show ?thesis
    unfolding index_grows_def bucket_grows_def
    by (simp add: pattern_relationship_floor)
qed

theorem pattern_index_monotone_witness:
  "map_of (before_bucket trained_llm ''runs'') ''dog'' = Some 0.095 \<and>
   map_of (before_bucket (state_after (analyze_patterns ''dog runs'' trained_llm)) ''runs'') ''dog''
     = Some 0.19 \<and>
   map_of (after_bucket trained_llm ''dog'') ''runs'' = Some 0.095 \<and>
   map_of (after_bucket (state_after (analyze_patterns ''dog runs'' trained_llm)) ''dog'') ''runs''
     = Some 0.19 \<and>
   map_of (position_bucket trained_llm ''dog'' ''end_sentence'') ''runs'' = Some 0.095 \<and>
   map_of (position_bucket (state_after (analyze_patterns ''dog runs'' trained_llm)) ''dog''
             ''end_sentence'') ''runs'' = Some 0.19 \<and>
   fst (calculate_pattern_relationship trained_llm ''dog'' ''runs'' [''dog'', ''runs''] 0)
     = 0.095"
proof -
  have h1: "map_of (before_bucket trained_llm ''runs'') ''dog'' = Some 0.095" by code_simp
  have h2: "map_of (after_bucket trained_llm ''dog'') ''runs'' = Some 0.095" by code_simp
  have h3: "map_of (position_bucket trained_llm ''dog'' ''end_sentence'') ''runs'' = Some 0.095"
    by code_simp
  have r1: "map_of (before_bucket (state_after (analyze_patterns ''dog runs'' trained_llm))
                      ''runs'') ''dog'' = Some 0.19" by code_simp
  have r2: "map_of (after_bucket (state_after (analyze_patterns ''dog runs'' trained_llm))
                      ''dog'') ''runs'' = Some 0.19" by code_simp
  have r3: "map_of (position_bucket (state_after (analyze_patterns ''dog runs'' trained_llm))
                      ''dog'' ''end_sentence'') ''runs'' = Some 0.19" by code_simp
  have r4: "fst (calculate_pattern_relationship trained_llm ''dog'' ''runs'' [''dog'', ''runs''] 0)
              = 0.095" by code_simp
  from pattern_index_monotone[of trained_llm "''dog''" "''runs''" "[''dog'', ''runs'']" 0
                                 "''runs''" "''dog''" "0.095" "''dog runs''" "''end_sentence''"]
       pattern_index_monotone[of trained_llm "''dog''" "''runs''" "[''dog'', ''runs'']" 0
                                 "''dog''" "''runs''" "0.095" "''dog runs''" "''end_sentence''"]
       h1 h2 h3 r1 r2 r3 r4
  show ?thesis by simp
qed

text \<open>
  The entries that reads store are part of the analysed engine: in \<^verbatim>\<open>the computer pc\<close> the
  read for \<^verbatim>\<open>the\<close> and \<^verbatim>\<open>computer\<close> stores a key that the strength of \<^verbatim>\<open>the\<close> and \<^verbatim>\<open>pc\<close>
  then counts. The reads of a prediction store zero entries in the index and change no
  entry that is there.
\<close>

lemma stored_reads_are_counted:
  "map_of (after_bucket (state_after (analyze_patterns ''the computer pc'' computer_llm)) ''the'')
          ''pc'' = Some 0.1075"
  by code_simp

lemma index_grows_pattern_touch_after: "index_grows s (pattern_touch_after word s)"
  by (simp add: index_grows_def before_bucket_def after_bucket_def position_bucket_def
                pattern_touch_after_def dget_dupd)

lemma bucket_grows_read: "bucket_grows m (dupd 0 (\<lambda>v. v) k m)"
  by (auto simp: bucket_grows_def map_of_dupd dget_def)

lemma index_grows_pattern_read_after: "index_grows s (pattern_read_after word other s)"
  by (simp add: index_grows_def before_bucket_def after_bucket_def position_bucket_def
                pattern_read_after_def dget_dupd bucket_grows_read)

lemma coherence_step_index [simp]:
  "pattern_relationships (snd (coherence_step candidate_word prev_word acc))
     = pattern_relationships (snd acc)"
  by (simp add: coherence_step_def Let_def)

lemma fold_coherence_step_index [simp]:
  "pattern_relationships (snd (fold (coherence_step candidate_word) prev_words acc))
     = pattern_relationships (snd acc)"
  by (induction prev_words arbitrary: acc) simp_all

lemma index_grows_complex_candidate:
  "index_grows s (snd (complex_candidate ws last_word candidate_word s))"
proof -
  let ?s2 = "pattern_read_after last_word candidate_word (rel_read last_word candidate_word s)"
  have a: "index_grows s (rel_read last_word candidate_word s)"
    by (rule index_grows_same) simp
  have b: "index_grows (rel_read last_word candidate_word s) ?s2"
    by (rule index_grows_pattern_read_after)
  have c: "index_grows ?s2 (snd (calculate_contextual_coherence ?s2 candidate_word ws))"
    by (rule index_grows_same) (simp add: calculate_contextual_coherence_def Let_def)
  show ?thesis
    using index_grows_trans[OF a index_grows_trans[OF b c]]
    by (simp add: complex_candidate_def Let_def)
qed

lemma index_grows_complex_step:
  "index_grows (snd acc) (snd (complex_step ws last_word candidate_word acc))"
  by (simp add: complex_step_def Let_def index_grows_complex_candidate)

lemma index_grows_fold_complex_step:
  "index_grows (snd acc) (snd (fold (complex_step ws last_word) candidates acc))"
proof (induction candidates arbitrary: acc)
  case Nil
  show ?case by simp
next
  case (Cons c candidates)
  show ?case
    using index_grows_trans[OF index_grows_complex_step Cons.IH] by simp
qed

lemma prediction_keeps_index: "index_grows s (predict_next_engine s text pmode)"
proof -
  have "index_grows s (snd (simple_scan s w))" for w
  proof -
    have "index_grows s (rel_touch w s)" by (rule index_grows_same) simp
    moreover have "index_grows (rel_touch w s) (pattern_touch_after w (rel_touch w s))"
      by (rule index_grows_pattern_touch_after)
    ultimately show ?thesis
      by (auto simp: simple_scan_def Let_def intro: index_grows_trans)
  qed
  moreover have "index_grows s (snd (complex_scan s ws w))" for ws w
    using index_grows_fold_complex_step[of "([], s)" ws w "map fst (word_db s)"]
    by (simp add: complex_scan_def)
  ultimately show ?thesis by (simp add: predict_next_engine_def Let_def)
qed

subsection \<open>Length of a generated sentence\<close>



































end
